theory Spec2Isabelle
  imports Main
begin

section \<open>Python values\<close>

text \<open>
  The providers read JSON and keep the decoded values as they are, so the model works on
  the decoded value. A decoded object is an association list; \<open>json.loads\<close> leaves one
  binding per key. Numbers are the integers of JSON; numbers with a fraction or an
  exponent (Python floats) are outside the model.
  A \<open>char\<close> stands for one code point of a Python \<open>str\<close>.
\<close>

datatype json =
    JNull
  | JBool bool
  | JInt int
  | JStr string
  | JList "json list"
  | JObj "(string \<times> json) list"

datatype error =
    AttributeError
  | TypeError
  | KeyError
  | ValueError
  | OverflowError
  | RecursionError
  | FileNotFoundError
  | RuntimeError
  | ReError

text \<open>Truth value of a Python object, as \<open>if x\<close>, \<open>x or y\<close> and \<open>not x\<close> test it.\<close>

fun truthy :: "json \<Rightarrow> bool" where
  "truthy JNull = False"
| "truthy (JBool b) = b"
| "truthy (JInt i) = (i \<noteq> 0)"
| "truthy (JStr s) = (s \<noteq> [])"
| "truthy (JList xs) = (xs \<noteq> [])"
| "truthy (JObj kvs) = (kvs \<noteq> [])"

text \<open>\<open>a or b\<close>\<close>

definition py_or :: "json \<Rightarrow> json \<Rightarrow> json" where
  "py_or a b = (if truthy a then a else b)"

text \<open>\<open>isinstance(v, dict)\<close>\<close>

fun is_dict :: "json \<Rightarrow> bool" where
  "is_dict (JObj kvs) = True"
| "is_dict v = False"

text \<open>
  \<open>v.get(k)\<close> and \<open>v.get(k, d)\<close>: only a dict has the method; on every other value the
  attribute lookup raises.
\<close>

fun get_default :: "json \<Rightarrow> string \<Rightarrow> json \<Rightarrow> error + json" where
  "get_default (JObj kvs) k d = Inr (case map_of kvs k of None \<Rightarrow> d | Some v \<Rightarrow> v)"
| "get_default v k d = Inl AttributeError"

definition get :: "json \<Rightarrow> string \<Rightarrow> error + json" where
  "get v k = get_default v k JNull"

text \<open>\<open>k in v\<close> for a dict \<open>v\<close>\<close>

fun has_key :: "json \<Rightarrow> string \<Rightarrow> bool" where
  "has_key (JObj kvs) k = (map_of kvs k \<noteq> None)"
| "has_key v k = False"

text \<open>Sequencing of computations that may raise.\<close>

definition bind :: "error + 'a \<Rightarrow> ('a \<Rightarrow> error + 'b) \<Rightarrow> error + 'b" where
  "bind m f = (case m of Inl e \<Rightarrow> Inl e | Inr v \<Rightarrow> f v)"

text \<open>
  What a \<open>for x in v\<close> loop visits. A list gives its elements, a string its characters
  (each a string of length one), a dict its keys; \<open>None\<close>, booleans and integers are not
  iterable.
\<close>

fun iterate :: "json \<Rightarrow> error + json list" where
  "iterate (JList xs) = Inr xs"
| "iterate (JStr s) = Inr (map (\<lambda>c. JStr [c]) s)"
| "iterate (JObj kvs) = Inr (map (\<lambda>kv. JStr (fst kv)) kvs)"
| "iterate v = Inl TypeError"

text \<open>\<open>v in {s1, s2, ...}\<close> hashes \<open>v\<close> first: a list or a dict is unhashable.\<close>

fun in_str_set :: "json \<Rightarrow> string list \<Rightarrow> error + bool" where
  "in_str_set (JList xs) S = Inl TypeError"
| "in_str_set (JObj kvs) S = Inl TypeError"
| "in_str_set (JStr s) S = Inr (s \<in> set S)"
| "in_str_set v S = Inr False"

subsection \<open>Decimal text of integers\<close>

definition digit_char :: "nat \<Rightarrow> char" where
  "digit_char d = ''0123456789'' ! d"

fun str_nat :: "nat \<Rightarrow> string" where
  "str_nat n = (if n < 10 then [digit_char n] else str_nat (n div 10) @ [digit_char (n mod 10)])"

declare str_nat.simps [simp del]

definition str_int :: "int \<Rightarrow> string" where
  "str_int i = (if i < 0 then CHR ''-'' # str_nat (nat (- i)) else str_nat (nat i))"

text \<open>\<open>'%0<w>d' % n\<close> for a natural number\<close>

definition zero_pad :: "nat \<Rightarrow> nat \<Rightarrow> string" where
  "zero_pad w n = replicate (w - length (str_nat n)) CHR ''0'' @ str_nat n"

subsection \<open>Dates and times\<close>

text \<open>
  A \<open>datetime\<close> is its calendar fields and an optional fixed offset from UTC, counted in
  microseconds; \<open>None\<close> is a naive value and \<open>Some 0\<close> is \<open>timezone.utc\<close>.
\<close>

record civil =
  year :: nat
  month :: nat
  day :: nat
  hour :: nat
  minute :: nat
  second :: nat
  microsecond :: nat

record datetime =
  wall :: civil
  tzinfo :: "int option"

definition utc :: "int option" where
  "utc = Some 0"

text \<open>\<open>datetime.isoformat()\<close>, with the offset printed as the library's own formatter does.\<close>

definition format_offset :: "int option \<Rightarrow> string" where
  "format_offset off =
     (case off of
        None \<Rightarrow> []
      | Some us \<Rightarrow>
          (let sign = (if us < 0 then ''-'' else ''+'');
               a = nat (abs us);
               hh = a div 3600000000;
               r = a mod 3600000000;
               mm = r div 60000000;
               ss = r mod 60000000
           in sign @ zero_pad 2 hh @ '':'' @ zero_pad 2 mm
              @ (if ss \<noteq> 0
                 then '':'' @ zero_pad 2 (ss div 1000000)
                      @ (if ss mod 1000000 \<noteq> 0 then ''.'' @ zero_pad 6 (ss mod 1000000) else [])
                 else [])))"

definition isoformat :: "datetime \<Rightarrow> string" where
  "isoformat d =
     (let c = wall d
      in zero_pad 4 (year c) @ ''-'' @ zero_pad 2 (month c) @ ''-'' @ zero_pad 2 (day c)
         @ ''T'' @ zero_pad 2 (hour c) @ '':'' @ zero_pad 2 (minute c) @ '':''
         @ zero_pad 2 (second c)
         @ (if microsecond c \<noteq> 0 then ''.'' @ zero_pad 6 (microsecond c) else [])
         @ format_offset (tzinfo d))"

text \<open>\<open>s.replace(old, new)\<close> for a non-empty \<open>old\<close>: every occurrence, scanning from the left.\<close>

fun replace :: "string \<Rightarrow> string \<Rightarrow> string \<Rightarrow> string" where
  "replace old new [] = []"
| "replace old new (c # cs) =
     (if old \<noteq> [] \<and> take (length old) (c # cs) = old
      then new @ replace old new (drop (length old) (c # cs))
      else c # replace old new cs)"

subsection \<open>The runtime library\<close>

text \<open>
  A compiled regular expression is what \<open>finditer\<close> computes: the spans of the
  non-overlapping matches in a text, in order.
\<close>

type_synonym pattern = "string \<Rightarrow> (int \<times> int) list"

text \<open>
  The parts of the Python runtime the repository calls and does not define:
  \<open>repr\<close> is \<open>str()\<close> of a list or a dict, \<open>json_dumps\<close> is \<open>json.dumps(v, ensure_ascii=False)\<close>,
  \<open>strip\<close> is \<open>str.strip\<close>, \<open>fromisoformat\<close> is \<open>datetime.fromisoformat\<close> (\<open>None\<close> when it
  raises \<open>ValueError\<close>), \<open>utc_fields\<close> gives the calendar fields of a value moved to UTC
  (offset arithmetic for an aware value, the platform's zone for a naive one),
  \<open>localtime\<close> gives the local calendar fields of a count of milliseconds since the epoch
  (the division by \<open>1000.0\<close> included), and \<open>re_compile\<close> is \<open>re.compile(p, re.MULTILINE)\<close>
  with the exception it raises: \<open>ReError\<close> stands for \<open>re.error\<close>, which is not a
  \<open>ValueError\<close>; a pattern may also make the compiler raise another exception, such as
  \<open>OverflowError\<close> for a repetition count beyond the machine's limit.
\<close>

record stdlib =
  repr :: "json \<Rightarrow> string"
  json_dumps :: "json \<Rightarrow> string"
  strip :: "string \<Rightarrow> string"
  fromisoformat :: "string \<Rightarrow> datetime option"
  utc_fields :: "datetime \<Rightarrow> error + civil"
  localtime :: "int \<Rightarrow> error + civil"
  re_compile :: "string \<Rightarrow> error + pattern"

text \<open>\<open>str(v)\<close>, also what an f-string prints for \<open>v\<close>.\<close>

fun py_str :: "stdlib \<Rightarrow> json \<Rightarrow> string" where
  "py_str L (JStr s) = s"
| "py_str L JNull = ''None''"
| "py_str L (JBool b) = (if b then ''True'' else ''False'')"
| "py_str L (JInt i) = str_int i"
| "py_str L v = repr L v"

text \<open>\<open>d.astimezone(timezone.utc)\<close>: a value already in UTC is returned as it is.\<close>

definition astimezone_utc :: "stdlib \<Rightarrow> datetime \<Rightarrow> error + datetime" where
  "astimezone_utc L d =
     (if tzinfo d = utc then Inr d
      else bind (utc_fields L d) (\<lambda>c. Inr \<lparr>wall = c, tzinfo = utc\<rparr>))"

text \<open>\<open>datetime.fromtimestamp(ms / 1000.0)\<close>: local time, no zone attached.\<close>

definition fromtimestamp_ms :: "stdlib \<Rightarrow> int \<Rightarrow> error + datetime" where
  "fromtimestamp_ms L ms = bind (localtime L ms) (\<lambda>c. Inr \<lparr>wall = c, tzinfo = None\<rparr>)"

section \<open>History entries and session context (frameworks/base.py)\<close>

text \<open>
  The dataclass annotates \<open>text\<close> and \<open>role\<close> as strings, and nothing checks it: a provider
  stores the decoded value it found, so both fields hold a Python value here.
\<close>

record HistoryEntry =
  timestamp :: "datetime option"
  kind :: string
  entry_text :: json
  role :: json
  metadata :: json

record SessionContext =
  session_id :: string
  entries :: "HistoryEntry list"

section \<open>Matching engine (main.py)\<close>

text \<open>\<open>xs[i:j]\<close>\<close>

definition py_slice :: "'a list \<Rightarrow> int \<Rightarrow> int \<Rightarrow> 'a list" where
  "py_slice xs i j =
     (let n = int (length xs);
          a = (if i < 0 then max 0 (i + n) else min i n);
          b = (if j < 0 then max 0 (j + n) else min j n)
      in take (nat (b - a)) (drop (nat a) xs))"

text \<open>The marker is the single code point U+2026.\<close>

definition ELLIPSIS :: string where
  "ELLIPSIS = [CHR 0x85]"

definition extract_window :: "string \<Rightarrow> int \<times> int \<Rightarrow> int \<Rightarrow> string" where
  "extract_window txt span padding =
     (let start = fst span;
          end = snd span;
          window_start = max 0 (start - padding);
          window_end = min (int (length txt)) (end + padding);
          prefix = (if window_start > 0 then ELLIPSIS else []);
          suffix = (if window_end < int (length txt) then ELLIPSIS else [])
      in prefix @ py_slice txt window_start window_end @ suffix)"

definition entry_metadata :: "HistoryEntry \<Rightarrow> json" where
  "entry_metadata entry =
     JObj [(''timestamp'',
            (case timestamp entry of
               Some t \<Rightarrow> JStr (replace ''+00:00'' ''Z'' (isoformat t))
             | None \<Rightarrow> JNull)),
           (''kind'', JStr (kind entry)),
           (''role'', role entry)]"

record snippet =
  snippet_text :: string
  snippet_metadata :: json

text \<open>
  The inner loop of \<open>_collect_snippets\<close>, for one entry. An entry whose text is falsy is
  passed over; \<open>finditer\<close> on a text that is not a string raises.
\<close>

definition entry_snippets :: "pattern \<Rightarrow> HistoryEntry \<Rightarrow> error + snippet list" where
  "entry_snippets pat entry =
     (if \<not> truthy (entry_text entry) then Inr []
      else (case entry_text entry of
              JStr t \<Rightarrow>
                Inr (map (\<lambda>span. \<lparr>snippet_text = extract_window t span 80,
                                   snippet_metadata = entry_metadata entry\<rparr>) (pat t))
            | _ \<Rightarrow> Inl TypeError))"

fun collect_loop :: "pattern \<Rightarrow> HistoryEntry list \<Rightarrow> snippet list \<Rightarrow> error + snippet list" where
  "collect_loop pat [] snippets = Inr snippets"
| "collect_loop pat (entry # rest) snippets =
     bind (entry_snippets pat entry) (\<lambda>found. collect_loop pat rest (snippets @ found))"

definition collect_snippets :: "pattern \<Rightarrow> SessionContext \<Rightarrow> error + snippet list" where
  "collect_snippets pat context = collect_loop pat (entries context) []"

section \<open>Session note tracker (session_state.py)\<close>

text \<open>
  \<open>_shown\<close> is a dictionary from session ids to sets of note ids; a session that was never
  marked has no entry.
\<close>

type_synonym SessionNoteTracker = "string \<rightharpoonup> string set"

definition tracker_init :: SessionNoteTracker where
  "tracker_init = Map.empty"

definition shown_of :: "SessionNoteTracker \<Rightarrow> string \<Rightarrow> string set" where
  "shown_of tr sid = (case tr sid of None \<Rightarrow> {} | Some S \<Rightarrow> S)"

definition mark_shown :: "SessionNoteTracker \<Rightarrow> string \<Rightarrow> string \<Rightarrow> SessionNoteTracker" where
  "mark_shown tr sid nid = tr(sid \<mapsto> insert nid (shown_of tr sid))"

definition has_shown :: "SessionNoteTracker \<Rightarrow> string \<Rightarrow> string \<Rightarrow> bool" where
  "has_shown tr sid nid = (nid \<in> shown_of tr sid)"

definition unseen :: "SessionNoteTracker \<Rightarrow> string \<Rightarrow> string list \<Rightarrow> string list" where
  "unseen tr sid note_ids = filter (\<lambda>nid. nid \<notin> shown_of tr sid) note_ids"

definition reset :: "SessionNoteTracker \<Rightarrow> string \<Rightarrow> SessionNoteTracker" where
  "reset tr sid = tr(sid := None)"

section \<open>Sticky notes and their store (storage.py)\<close>

text \<open>The field \<open>id\<close> of the source is \<open>note_id\<close> here.\<close>

record StickyNote =
  note_id :: string
  message :: string
  context_regex :: string
  created_at :: datetime
  creator :: "string option"
  trigger_snippets :: "string list option"

definition dt_to_iso :: "stdlib \<Rightarrow> datetime \<Rightarrow> error + string" where
  "dt_to_iso L v =
     bind (if tzinfo v = None then Inr (v\<lparr>tzinfo := utc\<rparr>) else astimezone_utc L v)
          (\<lambda>v'. Inr (replace ''+00:00'' ''Z'' (isoformat v')))"

definition iso_to_dt :: "stdlib \<Rightarrow> string \<Rightarrow> error + datetime" where
  "iso_to_dt L v =
     (case fromisoformat L (replace ''Z'' ''+00:00'' v) of
        None \<Rightarrow> Inl ValueError
      | Some dt \<Rightarrow> astimezone_utc L dt)"

text \<open>\<open>StickyNote.to_dict\<close>: an optional field is written only when it is truthy.\<close>

definition to_dict :: "stdlib \<Rightarrow> StickyNote \<Rightarrow> error + json" where
  "to_dict L n =
     bind (dt_to_iso L (created_at n)) (\<lambda>iso.
       Inr (JObj ([(''id'', JStr (note_id n)),
                   (''message'', JStr (message n)),
                   (''context_regex'', JStr (context_regex n)),
                   (''created_at'', JStr iso)]
                  @ (case creator n of
                       Some c \<Rightarrow> (if c \<noteq> [] then [(''creator'', JStr c)] else [])
                     | None \<Rightarrow> [])
                  @ (case trigger_snippets n of
                       Some xs \<Rightarrow>
                         (if xs \<noteq> [] then [(''trigger_snippets'', JList (map JStr xs))] else [])
                     | None \<Rightarrow> []))))"

text \<open>\<open>payload[k]\<close> for a string key\<close>

fun subscript :: "json \<Rightarrow> string \<Rightarrow> error + json" where
  "subscript (JObj kvs) k = (case map_of kvs k of None \<Rightarrow> Inl KeyError | Some v \<Rightarrow> Inr v)"
| "subscript v k = Inl TypeError"

definition from_dict :: "stdlib \<Rightarrow> json \<Rightarrow> error + StickyNote" where
  "from_dict L payload =
     bind (get payload ''trigger_snippets'') (\<lambda>raw_snippets.
     bind (subscript payload ''id'') (\<lambda>id_v.
     bind (subscript payload ''message'') (\<lambda>message_v.
     bind (subscript payload ''context_regex'') (\<lambda>regex_v.
     bind (subscript payload ''created_at'') (\<lambda>created_v.
     bind (iso_to_dt L (py_str L created_v)) (\<lambda>created.
     bind (get payload ''creator'') (\<lambda>creator_v.
     bind (if truthy creator_v then subscript payload ''creator'' else Inr JNull) (\<lambda>creator_v'.
       Inr \<lparr>note_id = py_str L id_v,
            message = py_str L message_v,
            context_regex = py_str L regex_v,
            created_at = created,
            creator = (if truthy creator_v then Some (py_str L creator_v') else None),
            trigger_snippets =
              (case raw_snippets of
                 JList items \<Rightarrow> Some (map (py_str L) items)
               | _ \<Rightarrow> None)\<rparr>))))))))"

text \<open>
  The store is the sequence of objects written to the note log, one a line.
  \<open>iter_notes\<close> passes over an object that \<open>from_dict\<close> rejects with \<open>KeyError\<close>,
  \<open>ValueError\<close> or \<open>TypeError\<close>; any other failure ends the reading.
\<close>

definition append :: "stdlib \<Rightarrow> json list \<Rightarrow> StickyNote \<Rightarrow> error + json list" where
  "append L store n = bind (to_dict L n) (\<lambda>d. Inr (store @ [d]))"

fun all_notes :: "stdlib \<Rightarrow> json list \<Rightarrow> error + StickyNote list" where
  "all_notes L [] = Inr []"
| "all_notes L (payload # rest) =
     (case from_dict L payload of
        Inr n \<Rightarrow> bind (all_notes L rest) (\<lambda>ns. Inr (n # ns))
      | Inl e \<Rightarrow>
          (if e \<in> {KeyError, ValueError, TypeError} then all_notes L rest else Inl e))"

section \<open>The two tools (main.py)\<close>

text \<open>
  \<open>_compile_regex\<close> turns \<open>re.error\<close> into \<open>ValueError\<close>; every other exception of
  \<open>re.compile\<close> passes through as it is.
\<close>

definition compile_regex :: "stdlib \<Rightarrow> string \<Rightarrow> error + pattern" where
  "compile_regex L p =
     (case re_compile L p of
        Inl e \<Rightarrow> Inl (if e = ReError then ValueError else e)
      | Inr pat \<Rightarrow> Inr pat)"

text \<open>\<open>datetime.now(timezone.utc)\<close>, for the calendar fields the clock shows.\<close>

definition timestamp_now :: "civil \<Rightarrow> datetime" where
  "timestamp_now clock = \<lparr>wall = clock, tzinfo = utc\<rparr>"

text \<open>
  A provider is its \<open>load_context\<close>. \<open>fresh\<close> is the value of \<open>uuid4().hex\<close> and
  \<open>clock\<close> the reading of the clock at the call. The result is the appended note with
  the answer of the tool.
\<close>

definition create_sticky_note ::
  "stdlib \<Rightarrow> (string \<Rightarrow> error + SessionContext) \<Rightarrow> string \<Rightarrow> civil
   \<Rightarrow> string \<Rightarrow> string \<Rightarrow> string \<Rightarrow> string option \<Rightarrow> error + (StickyNote \<times> json)" where
  "create_sticky_note L load_context fresh clock msg regex sid nid =
     (if sid = [] then Inl RuntimeError
      else if msg = [] then Inl ValueError
      else bind (compile_regex L regex) (\<lambda>pat.
           bind (case load_context sid of
                   Inl e \<Rightarrow> Inl (if e = FileNotFoundError then RuntimeError else e)
                 | Inr c \<Rightarrow> Inr c) (\<lambda>context.
           bind (collect_snippets pat context) (\<lambda>snippets.
             (let snippet_texts = map snippet_text snippets;
                  generated_id = (case nid of
                                    Some i \<Rightarrow> (if i \<noteq> [] then i else fresh)
                                  | None \<Rightarrow> fresh);
                  note = \<lparr>note_id = generated_id,
                          message = msg,
                          context_regex = regex,
                          created_at = timestamp_now clock,
                          creator = None,
                          trigger_snippets =
                            (if snippet_texts \<noteq> [] then Some snippet_texts else None)\<rparr>
              in Inr (note, JObj [(''id'', JStr generated_id),
                                  (''trigger_snippets'', JList (map JStr snippet_texts))]))))))"

text \<open>
  The loop of \<open>read_relevant_sticky_notes\<close> over the stored notes. A note whose pattern
  makes \<open>_compile_regex\<close> raise \<open>ValueError\<close> is passed over; any other exception, of
  \<open>_compile_regex\<close> or of \<open>_collect_snippets\<close>, ends the call. The tracker is changed in
  place, so it is returned also when the call raises: the notes marked before the
  exception stay marked.
\<close>

fun notes_loop ::
  "stdlib \<Rightarrow> SessionContext \<Rightarrow> string \<Rightarrow> StickyNote list \<Rightarrow> SessionNoteTracker \<Rightarrow> json list
   \<Rightarrow> SessionNoteTracker \<times> (error + json list)" where
  "notes_loop L context sid [] tr results = (tr, Inr results)"
| "notes_loop L context sid (note # rest) tr results =
     (if has_shown tr sid (note_id note) then notes_loop L context sid rest tr results
      else (case compile_regex L (context_regex note) of
              Inl e \<Rightarrow>
                (if e = ValueError then notes_loop L context sid rest tr results
                 else (tr, Inl e))
            | Inr pat \<Rightarrow>
                (case collect_snippets pat context of
                   Inl e \<Rightarrow> (tr, Inl e)
                 | Inr snippets \<Rightarrow>
                     (if snippets = [] then notes_loop L context sid rest tr results
                      else notes_loop L context sid rest
                             (mark_shown tr sid (note_id note))
                             (results @ [JObj [(''message'', JStr (message note)),
                                               (''trigger_snippets'',
                                                JList (map (\<lambda>s. JStr (snippet_text s))
                                                         snippets))]])))))"

definition read_relevant_sticky_notes ::
  "stdlib \<Rightarrow> (string \<Rightarrow> error + SessionContext) \<Rightarrow> StickyNote list \<Rightarrow> SessionNoteTracker
   \<Rightarrow> string \<Rightarrow> SessionNoteTracker \<times> (error + json list)" where
  "read_relevant_sticky_notes L load_context notes tr sid =
     (if sid = [] then (tr, Inl RuntimeError)
      else (case load_context sid of
              Inl e \<Rightarrow> (tr, Inl (if e = FileNotFoundError then RuntimeError else e))
            | Inr context \<Rightarrow> notes_loop L context sid notes tr []))"

section \<open>Notions of the specification for note delivery\<close>

text \<open>
  A note fires on a context when its pattern compiles and the matching engine finds at
  least one snippet. A note is eligible in a session when its id has not been shown
  there and it fires. \<open>payload_of\<close> is the object the tool returns for a note.
\<close>

definition fires :: "stdlib \<Rightarrow> SessionContext \<Rightarrow> StickyNote \<Rightarrow> bool" where
  "fires L context n =
     (case compile_regex L (context_regex n) of
        Inl e \<Rightarrow> False
      | Inr pat \<Rightarrow> (case collect_snippets pat context of Inl e \<Rightarrow> False | Inr sn \<Rightarrow> sn \<noteq> []))"

definition payload_of :: "stdlib \<Rightarrow> SessionContext \<Rightarrow> StickyNote \<Rightarrow> json" where
  "payload_of L context n =
     JObj [(''message'', JStr (message n)),
           (''trigger_snippets'',
            JList (case compile_regex L (context_regex n) of
                     Inl e \<Rightarrow> []
                   | Inr pat \<Rightarrow>
                       (case collect_snippets pat context of
                          Inl e \<Rightarrow> []
                        | Inr sn \<Rightarrow> map (\<lambda>s. JStr (snippet_text s)) sn)))]"

definition eligible ::
  "stdlib \<Rightarrow> SessionContext \<Rightarrow> SessionNoteTracker \<Rightarrow> string \<Rightarrow> StickyNote \<Rightarrow> bool" where
  "eligible L context tr sid n = (\<not> has_shown tr sid (note_id n) \<and> fires L context n)"

section \<open>Concrete values for the examples\<close>

text \<open>A pattern without metacharacters matches its own text: the spans of its occurrences.\<close>

fun find_literal :: "string \<Rightarrow> nat \<Rightarrow> string \<Rightarrow> (int \<times> int) list" where
  "find_literal p i [] = []"
| "find_literal p i (c # cs) =
     (if p \<noteq> [] \<and> take (length p) (c # cs) = p
      then (int i, int (i + length p)) # find_literal p (i + length p) (drop (length p) (c # cs))
      else find_literal p (Suc i) cs)"

definition example_time :: datetime where
  "example_time = \<lparr>wall = \<lparr>year = 2025, month = 1, day = 1, hour = 0, minute = 0,
                           second = 0, microsecond = 0\<rparr>, tzinfo = utc\<rparr>"

text \<open>
  A library that reads every pattern as a literal, parses the one timestamp of the
  examples, and prints a container as \<open>...\<close>.
\<close>

definition example_lib :: stdlib where
  "example_lib =
     \<lparr>repr = (\<lambda>v. ''...''),
      json_dumps = (\<lambda>v. ''...''),
      strip = (\<lambda>s. s),
      fromisoformat = (\<lambda>s. if s = ''2025-01-01T00:00:00+00:00'' then Some example_time else None),
      utc_fields = (\<lambda>d. Inr (wall d)),
      localtime = (\<lambda>ms. Inr (wall example_time)),
      re_compile = (\<lambda>p. Inr (find_literal p 0))\<rparr>"

definition text_entry :: "string \<Rightarrow> HistoryEntry" where
  "text_entry t = \<lparr>timestamp = None, kind = ''message'', entry_text = JStr t,
                   role = JStr ''user'', metadata = JNull\<rparr>"

definition context_bar :: SessionContext where
  "context_bar = \<lparr>session_id = ''s'', entries = [text_entry ''bar'']\<rparr>"

definition context_foo :: SessionContext where
  "context_foo = \<lparr>session_id = ''s'', entries = [text_entry ''foo bar'']\<rparr>"

definition example_note :: "string \<Rightarrow> string \<Rightarrow> StickyNote" where
  "example_note i r = \<lparr>note_id = i, message = ''remember'', context_regex = r,
                        created_at = example_time, creator = None, trigger_snippets = None\<rparr>"

definition duplicate_store :: "StickyNote list" where
  "duplicate_store = [example_note ''n'' ''foo'', example_note ''n'' ''bar'']"

definition duplicate_first_call :: "SessionNoteTracker \<times> (error + json list)" where
  "duplicate_first_call =
     read_relevant_sticky_notes example_lib (\<lambda>s. Inr context_bar) duplicate_store
       tracker_init ''s''"

definition example_store :: "StickyNote list" where
  "example_store = [example_note ''a'' ''bar'', example_note ''b'' ''foo'']"

definition example_first_call :: "SessionNoteTracker \<times> (error + json list)" where
  "example_first_call =
     read_relevant_sticky_notes example_lib (\<lambda>s. Inr context_bar) example_store
       tracker_init ''s''"

definition example_second_call :: "SessionNoteTracker \<times> (error + json list)" where
  "example_second_call =
     read_relevant_sticky_notes example_lib (\<lambda>s. Inr context_foo) example_store
       (fst example_first_call) ''s''"

text \<open>
  A library whose compiler raises \<open>OverflowError\<close> on the pattern \<open>a{4294967296}\<close>, as
  \<open>re.compile\<close> does, and a store with pairwise distinct ids that holds this pattern
  after a note that matches the context \<open>bar\<close>.
\<close>

definition overflow_lib :: stdlib where
  "overflow_lib =
     example_lib\<lparr>re_compile :=
       (\<lambda>p. if p = ''a{4294967296}'' then Inl OverflowError else Inr (find_literal p 0))\<rparr>"

definition overflow_store :: "StickyNote list" where
  "overflow_store = [example_note ''a'' ''bar'', example_note ''b'' ''a{4294967296}'']"

text \<open>
  The window as the specification words it: the characters of \<open>t\<close> from \<open>max(0, s - 80)\<close>
  up to \<open>min(len(t), e + 80)\<close>, with a marker on each side that was cut. On natural
  numbers \<open>s - 80\<close> is \<open>0\<close> when \<open>s < 80\<close>.
\<close>

definition substring :: "string \<Rightarrow> nat \<Rightarrow> nat \<Rightarrow> string" where
  "substring t a b = take (b - a) (drop a t)"

definition window_spec :: "string \<Rightarrow> nat \<Rightarrow> nat \<Rightarrow> string" where
  "window_spec t s e =
     (let a = s - 80; b = min (length t) (e + 80)
      in (if 0 < a then ELLIPSIS else []) @ substring t a b
         @ (if b < length t then ELLIPSIS else []))"

definition empty_fields_note :: StickyNote where
  "empty_fields_note = \<lparr>note_id = ''note-1'', message = ''Remember'', context_regex = ''docs'',
       created_at = example_time, creator = Some [], trigger_snippets = Some []\<rparr>"

section \<open>Serialization of notes\<close>

definition context_docs :: SessionContext where
  "context_docs = \<lparr>session_id = ''s'', entries = [text_entry ''see docs'']\<rparr>"

definition created_note :: StickyNote where
  "created_note = \<lparr>note_id = ''note-1'', message = ''Remember to update docs'',
       context_regex = ''docs'', created_at = example_time, creator = None,
       trigger_snippets = Some [''see docs'']\<rparr>"

section \<open>Line-format provider (frameworks/codex.py)\<close>

text \<open>
  A history file as \<open>_iter_jsonl\<close> reads it: in order, the values decoded from the lines
  that are not blank and that decode (a line that does not decode is passed over), and
  \<open>Inl e\<close> at the point where reading raises \<open>e\<close> (the file cannot be opened, or its
  bytes cannot be decoded), which ends the reading.
\<close>

record rollout =
  path :: string
  lines :: "(error + json) list"

text \<open>\<open>sep.join(parts)\<close>\<close>

fun join :: "string \<Rightarrow> string list \<Rightarrow> string" where
  "join sep [] = []"
| "join sep [x] = x"
| "join sep (x # y # ys) = x @ sep @ join sep (y # ys)"

definition parse_timestamp :: "stdlib \<Rightarrow> json \<Rightarrow> datetime option" where
  "parse_timestamp L raw =
     (case raw of JStr s \<Rightarrow> fromisoformat L (replace ''Z'' ''+00:00'' s) | _ \<Rightarrow> None)"

text \<open>\<open>item.get("payload") or {}\<close>\<close>

definition item_payload :: "json \<Rightarrow> error + json" where
  "item_payload item = bind (get item ''payload'') (\<lambda>p. Inr (py_or p (JObj [])))"

text \<open>\<open>inner if isinstance(inner, dict) and inner else payload\<close>\<close>

definition view_of :: "json \<Rightarrow> json \<Rightarrow> json" where
  "view_of inner payload = (if is_dict inner \<and> truthy inner then inner else payload)"

definition entry_from_session_meta :: "stdlib \<Rightarrow> json \<Rightarrow> error + HistoryEntry option" where
  "entry_from_session_meta L item =
     bind (item_payload item) (\<lambda>payload.
     bind (get payload ''instructions'') (\<lambda>instructions.
       if \<not> truthy instructions then Inr None
       else bind (get item ''timestamp'') (\<lambda>raw.
              Inr (Some \<lparr>timestamp = parse_timestamp L raw,
                         kind = ''session_meta'',
                         entry_text = JStr (py_str L instructions),
                         role = JStr ''system'',
                         metadata = payload\<rparr>))))"

text \<open>
  What one element of a message content adds to \<open>text_parts\<close>: \<open>str(element["text"])\<close> for
  a dict with the key \<open>text\<close>, nothing otherwise.
\<close>

fun element_text :: "stdlib \<Rightarrow> json \<Rightarrow> string list" where
  "element_text L (JObj kvs) = (case map_of kvs ''text'' of Some v \<Rightarrow> [py_str L v] | None \<Rightarrow> [])"
| "element_text L v = []"

text \<open>
  \<open>_format_call_text\<close>. The arguments were decoded from JSON, so \<open>json.dumps\<close> does not
  raise on them.
\<close>

definition format_call_text :: "stdlib \<Rightarrow> json \<Rightarrow> json \<Rightarrow> string" where
  "format_call_text L name arguments =
     strip L (join '' '' ((if truthy name then [''call:'' @ py_str L name] else [])
                          @ (if truthy arguments then [json_dumps L arguments] else [])))"

text \<open>The characters of a value that is a string.\<close>

fun str_value :: "json \<Rightarrow> string" where
  "str_value (JStr s) = s"
| "str_value v = []"

definition entry_from_response_item :: "stdlib \<Rightarrow> json \<Rightarrow> error + HistoryEntry option" where
  "entry_from_response_item L item =
     bind (item_payload item) (\<lambda>payload.
     bind (get payload ''type'') (\<lambda>variant.
     bind (get payload ''payload'') (\<lambda>inner.
     bind (get item ''timestamp'') (\<lambda>raw.
       (let view = view_of inner payload;
            timestamp = parse_timestamp L raw
        in if variant = JStr ''message'' then
             bind (get view ''content'') (\<lambda>c.
             bind (iterate (py_or c (JList []))) (\<lambda>content.
               (let txt = join [CHR 0x0A]
                            (filter (\<lambda>part. part \<noteq> []) (concat (map (element_text L) content)))
                in if txt = [] then Inr None
                   else bind (get view ''role'') (\<lambda>r.
                          Inr (Some \<lparr>timestamp = timestamp, kind = ''message'',
                                     entry_text = JStr txt, role = r, metadata = payload\<rparr>)))))
           else if variant = JStr ''reasoning'' then
             bind (get view ''text'') (\<lambda>t.
               (let txt = strip L (py_str L (py_or t (JStr [])))
                in if txt = [] then Inr None
                   else bind (get view ''role'') (\<lambda>r.
                          Inr (Some \<lparr>timestamp = timestamp, kind = ''reasoning'',
                                     entry_text = JStr txt, role = r, metadata = payload\<rparr>))))
           else
             bind (in_str_set variant [''function_call'', ''custom_tool_call'', ''local_shell_call''])
               (\<lambda>is_call.
                 if is_call then
                   bind (get view ''name'') (\<lambda>n1.
                   bind (get view ''tool_name'') (\<lambda>n2.
                   bind (get view ''command'') (\<lambda>n3.
                   bind (get view ''arguments'') (\<lambda>a1.
                   bind (get view ''input'') (\<lambda>a2.
                     (let txt = format_call_text L (py_or (py_or n1 n2) n3) (py_or a1 a2)
                      in if txt = [] then Inr None
                         else bind (get view ''role'') (\<lambda>r.
                                Inr (Some \<lparr>timestamp = timestamp, kind = str_value variant,
                                           entry_text = JStr txt,
                                           role = py_or r (JStr ''assistant''),
                                           metadata = payload\<rparr>))))))))
                 else Inr None))))))"

definition entry_from_event_msg :: "stdlib \<Rightarrow> json \<Rightarrow> error + HistoryEntry option" where
  "entry_from_event_msg L item =
     bind (item_payload item) (\<lambda>payload.
     bind (get payload ''type'') (\<lambda>variant.
     bind (get payload ''payload'') (\<lambda>inner.
       (let view = view_of inner payload
        in bind (get view ''message'') (\<lambda>m.
           bind (get view ''text'') (\<lambda>t.
             (let message = py_or m t
              in if message = JNull then Inr None
                 else bind (get item ''timestamp'') (\<lambda>raw.
                      bind (get view ''role'') (\<lambda>r.
                        Inr (Some \<lparr>timestamp = parse_timestamp L raw,
                                   kind = ''event:'' @ py_str L variant,
                                   entry_text = JStr (py_str L message),
                                   role = r,
                                   metadata = payload\<rparr>))))))))))"

definition entry_from_compacted :: "stdlib \<Rightarrow> json \<Rightarrow> error + HistoryEntry option" where
  "entry_from_compacted L item =
     bind (item_payload item) (\<lambda>payload.
     bind (get payload ''message'') (\<lambda>message.
       if \<not> truthy message then Inr None
       else bind (get item ''timestamp'') (\<lambda>raw.
              Inr (Some \<lparr>timestamp = parse_timestamp L raw,
                         kind = ''compacted'',
                         entry_text = JStr (py_str L message),
                         role = JStr ''assistant'',
                         metadata = payload\<rparr>))))"

text \<open>
  The body of the loop of \<open>load_context\<close> over the items of one file: the entry the item
  gives, if any, and the new value of \<open>discovered_id\<close>. The variable \<open>mismatch\<close> of the
  source is set and never read, and is left out.
\<close>

definition process_item :: "stdlib \<Rightarrow> json \<Rightarrow> json \<Rightarrow> error + (HistoryEntry option \<times> json)" where
  "process_item L item discovered_id =
     bind (get item ''type'') (\<lambda>item_type.
       if item_type = JStr ''turn_context'' then Inr (None, discovered_id)
       else if item_type = JStr ''session_meta'' then
         bind (item_payload item) (\<lambda>payload.
         bind (get payload ''id'') (\<lambda>meta_id.
         bind (entry_from_session_meta L item) (\<lambda>entry.
           Inr (entry, if truthy meta_id then py_or discovered_id meta_id else discovered_id))))
       else if item_type = JStr ''response_item'' then
         bind (entry_from_response_item L item) (\<lambda>entry. Inr (entry, discovered_id))
       else if item_type = JStr ''event_msg'' then
         bind (item_payload item) (\<lambda>payload.
         bind (get payload ''type'') (\<lambda>variant.
         bind (in_str_set variant [''token_count'', ''agent_message'', ''user_message''])
           (\<lambda>noise.
             if noise then Inr (None, discovered_id)
             else bind (entry_from_event_msg L item) (\<lambda>entry. Inr (entry, discovered_id)))))
       else if item_type = JStr ''compacted'' then
         bind (entry_from_compacted L item) (\<lambda>entry. Inr (entry, discovered_id))
       else Inr (None, discovered_id))"

fun file_loop ::
  "stdlib \<Rightarrow> (error + json) list \<Rightarrow> HistoryEntry list \<Rightarrow> json
   \<Rightarrow> error + (HistoryEntry list \<times> json)" where
  "file_loop L [] found discovered_id = Inr (found, discovered_id)"
| "file_loop L (Inl e # rest) found discovered_id = Inl e"
| "file_loop L (Inr item # rest) found discovered_id =
     bind (process_item L item discovered_id) (\<lambda>r.
       file_loop L rest
         (case fst r of Some entry \<Rightarrow> found @ [entry] | None \<Rightarrow> found) (snd r))"

text \<open>
  The loop over the candidate files. \<open>fallback\<close> holds \<open>fallback_context\<close> with
  \<open>fallback_source\<close>, which are set together. The result carries the warnings logged: the
  session id and the source named in each.
\<close>

fun candidates_loop ::
  "stdlib \<Rightarrow> string \<Rightarrow> rollout list \<Rightarrow> (SessionContext \<times> string) option
   \<Rightarrow> error + (SessionContext \<times> (string \<times> string) list)" where
  "candidates_loop L sid [] fallback =
     (case fallback of
        Some f \<Rightarrow> Inr (fst f, [(sid, snd f)])
      | None \<Rightarrow> Inl FileNotFoundError)"
| "candidates_loop L sid (p # rest) fallback =
     bind (file_loop L (lines p) [] JNull) (\<lambda>r.
       if fst r = [] then candidates_loop L sid rest fallback
       else if snd r = JStr sid then Inr (\<lparr>session_id = sid, entries = fst r\<rparr>, [])
       else candidates_loop L sid rest
              (case fallback of
                 None \<Rightarrow> Some (\<lparr>session_id = sid, entries = fst r\<rparr>, path p)
               | Some f \<Rightarrow> Some f))"

text \<open>
  \<open>load_context\<close> of the provider. \<open>candidate_paths\<close> is \<open>_candidate_paths\<close> on the file
  system of the call: the files in the order they are tried, or the exception raised.
\<close>

definition codex_load_context ::
  "stdlib \<Rightarrow> (string \<Rightarrow> error + rollout list) \<Rightarrow> string
   \<Rightarrow> error + (SessionContext \<times> (string \<times> string) list)" where
  "codex_load_context L candidate_paths sid =
     (if sid = [] then Inl ValueError
      else bind (candidate_paths sid) (\<lambda>candidates. candidates_loop L sid candidates None))"

section \<open>JSON-document provider (frameworks/copilot.py)\<close>

text \<open>
  \<open>datetime.fromtimestamp(timestamp_ms / 1000.0) if timestamp_ms else None\<close>. The division
  is defined for a number, and \<open>True\<close> is the number 1; on a string, a list or a dict it
  raises.
\<close>

definition request_timestamp :: "stdlib \<Rightarrow> json \<Rightarrow> error + datetime option" where
  "request_timestamp L timestamp_ms =
     (if \<not> truthy timestamp_ms then Inr None
      else (case timestamp_ms of
              JInt i \<Rightarrow> bind (fromtimestamp_ms L i) (\<lambda>d. Inr (Some d))
            | JBool b \<Rightarrow> bind (fromtimestamp_ms L 1) (\<lambda>d. Inr (Some d))
            | _ \<Rightarrow> Inl TypeError))"

text \<open>The entries one response fragment adds.\<close>

definition fragment_entries ::
  "stdlib \<Rightarrow> json \<Rightarrow> datetime option \<Rightarrow> json \<Rightarrow> error + HistoryEntry list" where
  "fragment_entries L req ts resp_item =
     bind (get_default resp_item ''value'' (JStr [])) (\<lambda>resp_value.
       if truthy resp_value then
         bind (get req ''id'') (\<lambda>rid.
           Inr [\<lparr>timestamp = ts, kind = ''message'', entry_text = resp_value,
                 role = JStr ''assistant'', metadata = JObj [(''requestId'', rid)]\<rparr>])
       else
         bind (get resp_item ''kind'') (\<lambda>k.
           if k = JStr ''toolInvocationSerialized'' then
             bind (get resp_item ''toolId'') (\<lambda>tool_id.
             bind (get resp_item ''toolCallId'') (\<lambda>tool_call_id.
             bind (get_default resp_item ''resultDetails'' (JObj [])) (\<lambda>result_details.
             bind (get result_details ''input'') (\<lambda>input_args.
             bind (get req ''id'') (\<lambda>rid.
             bind (get result_details ''output'') (\<lambda>output.
               Inr [\<lparr>timestamp = ts, kind = ''tool_call'',
                     entry_text = JStr (''Tool Call: '' @ py_str L tool_id @ [CHR 0x0A]
                                        @ ''Arguments: '' @ py_str L input_args),
                     role = JStr ''assistant'',
                     metadata = JObj [(''requestId'', rid),
                                      (''toolCallId'', tool_call_id),
                                      (''toolId'', tool_id),
                                      (''input'', input_args),
                                      (''output'', output)]\<rparr>]))))))
           else Inr []))"

fun response_loop ::
  "stdlib \<Rightarrow> json \<Rightarrow> datetime option \<Rightarrow> json list \<Rightarrow> HistoryEntry list
   \<Rightarrow> error + HistoryEntry list" where
  "response_loop L req ts [] found = Inr found"
| "response_loop L req ts (resp_item # rest) found =
     bind (fragment_entries L req ts resp_item) (\<lambda>es. response_loop L req ts rest (found @ es))"

text \<open>The body of the loop over the requests, from the entries found so far (the list
  \<open>entries\<close> of the source) to the entries after the request.\<close>

definition request_entries ::
  "stdlib \<Rightarrow> json \<Rightarrow> HistoryEntry list \<Rightarrow> error + HistoryEntry list" where
  "request_entries L req found =
     bind (get req ''timestamp'') (\<lambda>timestamp_ms.
     bind (request_timestamp L timestamp_ms) (\<lambda>ts.
     bind (get_default req ''message'' (JObj [])) (\<lambda>msg.
     bind (get_default msg ''text'' (JStr [])) (\<lambda>user_text.
     bind (get req ''id'') (\<lambda>rid.
     bind (get_default req ''response'' (JList [])) (\<lambda>response.
     bind (iterate response) (\<lambda>items.
       response_loop L req ts items
         (if truthy user_text
          then found @ [\<lparr>timestamp = ts, kind = ''message'', entry_text = user_text,
                         role = JStr ''user'', metadata = JObj [(''requestId'', rid)]\<rparr>]
          else found))))))))"

fun requests_loop ::
  "stdlib \<Rightarrow> json list \<Rightarrow> HistoryEntry list \<Rightarrow> error + HistoryEntry list" where
  "requests_loop L [] found = Inr found"
| "requests_loop L (req # rest) found =
     bind (request_entries L req found) (\<lambda>es. requests_loop L rest es)"

text \<open>
  A chat session file: its name and stem as \<open>pathlib\<close> gives them, the modification time
  \<open>stat\<close> reports (a number; only the order of these numbers is read) or the exception it
  raises, and the document \<open>json.load\<close> returns or the exception of opening or decoding.
\<close>

record chat_file =
  file_name :: string
  file_stem :: string
  mtime :: "error + int"
  document :: "error + json"

definition parse_history_file :: "stdlib \<Rightarrow> chat_file \<Rightarrow> error + HistoryEntry list" where
  "parse_history_file L p =
     bind (document p) (\<lambda>data.
     bind (get_default data ''requests'' (JList [])) (\<lambda>requests.
     bind (iterate requests) (\<lambda>reqs. requests_loop L reqs [])))"

definition load_file :: "stdlib \<Rightarrow> chat_file \<Rightarrow> string \<Rightarrow> error + SessionContext" where
  "load_file L p sid =
     bind (parse_history_file L p) (\<lambda>es.
       if es \<noteq> [] then Inr \<lparr>session_id = sid, entries = es\<rparr> else Inl ValueError)"

text \<open>The keys of \<open>candidates.sort\<close>, computed in list order; the first exception ends the sort.\<close>

fun stat_keys :: "chat_file list \<Rightarrow> error + (int \<times> chat_file) list" where
  "stat_keys [] = Inr []"
| "stat_keys (p # rest) =
     bind (mtime p) (\<lambda>k. bind (stat_keys rest) (\<lambda>ks. Inr ((k, p) # ks)))"

text \<open>The fallback loop: any exception of loading a file is logged and the next file is tried.\<close>

fun fallback_loop :: "stdlib \<Rightarrow> chat_file list \<Rightarrow> error + SessionContext" where
  "fallback_loop L [] = Inl FileNotFoundError"
| "fallback_loop L (p # rest) =
     (case load_file L p (file_stem p) of
        Inr context \<Rightarrow> Inr context
      | Inl e \<Rightarrow> fallback_loop L rest)"

text \<open>
  \<open>load_context\<close> of the provider; \<open>find_session_files\<close> is \<open>_find_session_files\<close> on the
  file system of the call. The sort is stable and descending in the modification time.
  The messages logged are left out.
\<close>

definition copilot_load_context ::
  "stdlib \<Rightarrow> (string \<Rightarrow> error + chat_file list) \<Rightarrow> string \<Rightarrow> error + SessionContext" where
  "copilot_load_context L find_session_files sid =
     bind (find_session_files sid) (\<lambda>candidates.
       if candidates = [] then Inl FileNotFoundError
       else (case (if sid \<noteq> []
                   then filter (\<lambda>p. file_name p = sid @ ''.json'') candidates else []) of
               p # others \<Rightarrow> load_file L p sid
             | [] \<Rightarrow>
                 bind (stat_keys candidates) (\<lambda>keyed.
                   fallback_loop L (map snd (sort_key (\<lambda>kp. - fst kp) keyed)))))"


text \<open>The kinds that the specification says are never returned by the line-format provider.\<close>

definition excluded_kinds :: "string list" where
  "excluded_kinds = [''turn_context'', ''event:user_message'', ''event:agent_message'',
                     ''event:token_count'']"

text \<open>The value a record holds under a key, \<open>None\<close> when the key is absent.\<close>

fun field :: "json \<Rightarrow> string \<Rightarrow> json" where
  "field (JObj kvs) k = (case map_of kvs k of Some v \<Rightarrow> v | None \<Rightarrow> JNull)"
| "field v k = JNull"

text \<open>
  The entries and the discovered session id of one candidate file, as the loop of
  \<open>load_context\<close> computes them before it looks at the next file.
\<close>

definition parse_rollout :: "stdlib \<Rightarrow> rollout \<Rightarrow> error + (HistoryEntry list \<times> json)" where
  "parse_rollout L p = file_loop L (lines p) [] JNull"

text \<open>Records and files for the examples.\<close>

definition meta_item :: "string \<Rightarrow> string \<Rightarrow> json" where
  "meta_item i instructions =
     JObj [(''type'', JStr ''session_meta''),
           (''payload'', JObj [(''id'', JStr i), (''instructions'', JStr instructions)])]"

definition meta_entry :: "string \<Rightarrow> string \<Rightarrow> HistoryEntry" where
  "meta_entry i instructions =
     \<lparr>timestamp = None, kind = ''session_meta'', entry_text = JStr instructions,
      role = JStr ''system'',
      metadata = JObj [(''id'', JStr i), (''instructions'', JStr instructions)]\<rparr>"

definition event_item :: "string \<Rightarrow> (string \<times> json) list \<Rightarrow> json" where
  "event_item v extra =
     JObj [(''type'', JStr ''event_msg''), (''payload'', JObj ((''type'', JStr v) # extra))]"





text \<open>
  The record of the specification: an \<open>event_msg\<close> with the discriminant
  \<open>agent_reasoning\<close> and a text, and two records with an empty string.
\<close>

definition hidden_thoughts_item :: json where
  "hidden_thoughts_item = event_item ''agent_reasoning'' [(''text'', JStr ''**Hidden thoughts**'')]"



definition hidden_thoughts_entry :: HistoryEntry where
  "hidden_thoughts_entry =
     \<lparr>timestamp = None, kind = ''event:agent_reasoning'',
      entry_text = JStr ''**Hidden thoughts**'', role = JNull,
      metadata = JObj [(''type'', JStr ''agent_reasoning''),
                       (''text'', JStr ''**Hidden thoughts**'')]\<rparr>"

definition rollout_events :: rollout where
  "rollout_events =
     \<lparr>path = ''events.jsonl'',
      lines = [Inr (meta_item ''X'' ''be brief''),
               Inr (JObj [(''type'', JStr ''turn_context'')]),
               Inr (event_item ''token_count'' []),
               Inr hidden_thoughts_item,
               Inr (event_item ''agent_message'' [(''message'', JStr ''Duplicate'')])]\<rparr>"

(*DEFS-END*)

section \<open>Properties of the matching engine\<close>

lemma py_slice_nat:
  "py_slice xs (int a) (int b)
     = take (min b (length xs) - min a (length xs)) (drop (min a (length xs)) xs)"
  by (simp add: py_slice_def Let_def nat_diff_distrib' min_def)

lemma extract_window_nat: "extract_window t (int s, int e) 80 = window_spec t s e"
proof -
  have a: "max 0 (int s - 80) = int (s - 80)" by simp
  have b: "min (int (length t)) (int e + 80) = int (min (length t) (e + 80))" by simp
  show ?thesis
    unfolding extract_window_def window_spec_def substring_def Let_def fst_conv snd_conv
      a b py_slice_nat
    by (auto simp: min_def)
qed

text \<open>Every snippet of an entry is the window of one match, in the order of the matches.\<close>

lemma entry_snippets_windows:
  "entry_text entry = JStr t \<Longrightarrow> t \<noteq> [] \<Longrightarrow>
   entry_snippets pat entry
     = Inr (map (\<lambda>span. \<lparr>snippet_text = extract_window t span 80,
                            snippet_metadata = entry_metadata entry\<rparr>) (pat t))"
  by (simp add: entry_snippets_def)

text \<open>
  C3. For a text \<open>t\<close> and a match span \<open>(s, e)\<close>, the extracted window is the substring of
  \<open>t\<close> from \<open>max(0, s - 80)\<close> to \<open>min(len(t), e + 80)\<close>, with the marker in front exactly
  when the start is above \<open>0\<close> and the marker behind exactly when the end is below
  \<open>len(t)\<close>. For a text of length 200 and the span \<open>(150, 155)\<close> the window is the marker
  followed by the text from offset 70 to its end, with no marker behind.
\<close>

theorem extract_window_clipped:
  "extract_window t (int s, int e) 80
     = (if 0 < s - 80 then ELLIPSIS else [])
       @ substring t (s - 80) (min (length t) (e + 80))
       @ (if min (length t) (e + 80) < length t then ELLIPSIS else [])
   \<and> (length t = 200 \<longrightarrow> extract_window t (150, 155) 80 = ELLIPSIS @ drop 70 t)"
proof
  show "extract_window t (int s, int e) 80
     = (if 0 < s - 80 then ELLIPSIS else [])
       @ substring t (s - 80) (min (length t) (e + 80))
       @ (if min (length t) (e + 80) < length t then ELLIPSIS else [])"
    by (simp add: extract_window_nat window_spec_def Let_def)
next
  show "length t = 200 \<longrightarrow> extract_window t (150, 155) 80 = ELLIPSIS @ drop 70 t"
  proof
    assume len: "length t = 200"
    have "extract_window t (int 150, int 155) 80 = window_spec t 150 155"
      by (rule extract_window_nat)
    with len show "extract_window t (150, 155) 80 = ELLIPSIS @ drop 70 t"
      by (simp add: window_spec_def substring_def)
  qed
qed

theorem extract_window_clipped_witness:
  "length (replicate 200 CHR ''a'') = 200
   \<and> extract_window (replicate 200 CHR ''a'') (150, 155) 80
       = ELLIPSIS @ replicate 130 CHR ''a''"
  using extract_window_clipped [of "replicate 200 CHR ''a''" 150 155]
  by (simp add: substring_def)

section \<open>Delivery of notes, once per session\<close>

lemma has_shown_mark:
  "has_shown (mark_shown tr sid x) s y = ((s = sid \<and> y = x) \<or> has_shown tr s y)"
  by (auto simp: has_shown_def mark_shown_def shown_of_def)

lemma filter_eligible_mark:
  "note_id n \<notin> note_id ` set ns \<Longrightarrow>
   filter (eligible L c (mark_shown tr sid (note_id n)) sid) ns = filter (eligible L c tr sid) ns"
  by (rule filter_cong) (auto simp: eligible_def has_shown_mark image_iff)

text \<open>
  What one run of the loop returns and marks, when the stored ids are pairwise distinct:
  the eligible notes, in store order, and their ids.
\<close>

lemma notes_loop_distinct:
  "distinct (map note_id ns) \<Longrightarrow> notes_loop L c sid ns tr acc = (tr', Inr res) \<Longrightarrow>
   res = acc @ map (payload_of L c) (filter (eligible L c tr sid) ns)
   \<and> (\<forall>s x. has_shown tr' s x
        = (has_shown tr s x \<or> (s = sid \<and> x \<in> note_id ` set (filter (eligible L c tr sid) ns))))"
proof (induction ns arbitrary: tr acc)
  case Nil
  then show ?case by simp
next
  case (Cons n ns)
  from Cons.prems(1) have d: "distinct (map note_id ns)" and nin: "note_id n \<notin> note_id ` set ns"
    by auto
  show ?case
  proof (cases "has_shown tr sid (note_id n)")
    case True
    with Cons.prems(2) have "notes_loop L c sid ns tr acc = (tr', Inr res)" by simp
    from Cons.IH[OF d this] True show ?thesis by (simp add: eligible_def)
  next
    case ns: False
    show ?thesis
    proof (cases "compile_regex L (context_regex n)")
      case (Inl e)
      with ns Cons.prems(2) have "notes_loop L c sid ns tr acc = (tr', Inr res)"
        by (simp split: if_splits)
      from Cons.IH[OF d this] Inl show ?thesis by (simp add: eligible_def fires_def)
    next
      case (Inr pat)
      show ?thesis
      proof (cases "collect_snippets pat c")
        case (Inl e)
        with ns Inr Cons.prems(2) show ?thesis by simp
      next
        case sn: (Inr sn)
        show ?thesis
        proof (cases "sn = []")
          case True
          with ns Inr sn Cons.prems(2) have "notes_loop L c sid ns tr acc = (tr', Inr res)"
            by simp
          from Cons.IH[OF d this] Inr sn True show ?thesis
            by (simp add: eligible_def fires_def)
        next
          case False
          let ?p = "JObj [(''message'', JStr (message n)),
                          (''trigger_snippets'', JList (map (\<lambda>s. JStr (snippet_text s)) sn))]"
          from ns Inr sn False Cons.prems(2)
          have "notes_loop L c sid ns (mark_shown tr sid (note_id n)) (acc @ [?p])
                  = (tr', Inr res)"
            by simp
          from Cons.IH[OF d this]
          have r: "res = (acc @ [?p]) @ map (payload_of L c) (filter (eligible L c tr sid) ns)"
            and h: "\<forall>s x. has_shown tr' s x
               = (has_shown (mark_shown tr sid (note_id n)) s x
                  \<or> (s = sid \<and> x \<in> note_id ` set (filter (eligible L c tr sid) ns)))"
            by (simp_all add: filter_eligible_mark[OF nin])
          have e: "eligible L c tr sid n"
            using ns Inr sn False by (simp add: eligible_def fires_def)
          have p: "payload_of L c n = ?p" using Inr sn by (simp add: payload_of_def)
          from r e p h show ?thesis by (auto simp: has_shown_mark)
        qed
      qed
    qed
  qed
qed

lemma read_relevant_loop:
  "load_context sid = Inr c \<Longrightarrow> read_relevant_sticky_notes L load_context ns tr sid = (tr', Inr r)
   \<Longrightarrow> notes_loop L c sid ns tr [] = (tr', Inr r)"
  by (simp add: read_relevant_sticky_notes_def split: if_splits)

lemma example_compile: "compile_regex example_lib p = Inr (find_literal p 0)"
  by (simp add: compile_regex_def example_lib_def)

lemma example_collect:
  "collect_snippets (find_literal ''bar'' 0) context_bar
     = Inr [\<lparr>snippet_text = ''bar'', snippet_metadata = entry_metadata (text_entry ''bar'')\<rparr>]"
  "collect_snippets (find_literal ''foo'' 0) context_bar = Inr []"
  "collect_snippets (find_literal ''foo'' 0) context_foo
     = Inr [\<lparr>snippet_text = ''foo bar'', snippet_metadata = entry_metadata (text_entry ''foo bar'')\<rparr>]"
  "collect_snippets (find_literal ''bar'' 0) context_foo
     = Inr [\<lparr>snippet_text = ''foo bar'', snippet_metadata = entry_metadata (text_entry ''foo bar'')\<rparr>]"
  by (simp_all add: collect_snippets_def context_bar_def context_foo_def text_entry_def
      entry_snippets_def bind_def extract_window_def py_slice_def)

lemma example_note_sel [simp]:
  "note_id (example_note i r) = i" "context_regex (example_note i r) = r"
  "message (example_note i r) = ''remember''"
  by (simp_all add: example_note_def)

lemma example_fires:
  "fires example_lib context_bar (example_note i ''bar'')"
  "\<not> fires example_lib context_bar (example_note i ''foo'')"
  "fires example_lib context_foo (example_note i ''foo'')"
  "fires example_lib context_foo (example_note i ''bar'')"
  by (simp_all add: fires_def example_compile example_collect)

lemmas tracker_defs = has_shown_def shown_of_def mark_shown_def tracker_init_def

text \<open>
  C1, as stated, fails when two stored notes carry the same id. The store holds a note
  with pattern \<open>foo\<close> and then a note with pattern \<open>bar\<close>, both with id \<open>n\<close>. On the
  context \<open>bar\<close> the first note yields no snippet and the second is delivered, which marks
  the id \<open>n\<close>: the first note is marked shown although its pattern found nothing, and on
  the next call, where its pattern matches the context, nothing is returned.
\<close>

theorem zero_snippet_note_marked_counterexample:
  "\<not> fires example_lib context_bar (example_note ''n'' ''foo'')
   \<and> has_shown (fst duplicate_first_call) ''s'' (note_id (example_note ''n'' ''foo''))
   \<and> fires example_lib context_foo (example_note ''n'' ''foo'')
   \<and> snd (read_relevant_sticky_notes example_lib (\<lambda>s. Inr context_foo) duplicate_store
             (fst duplicate_first_call) ''s'') = Inr []"
  by (simp add: example_fires duplicate_first_call_def duplicate_store_def
      read_relevant_sticky_notes_def example_compile example_collect tracker_defs)


text \<open>
  A call that raises keeps the marks it made before the exception. With the store
  \<open>overflow_store\<close>, whose ids are distinct, the call on the context \<open>bar\<close> marks the note
  \<open>a\<close> shown and then ends with the \<open>OverflowError\<close> of the second pattern: the note \<open>a\<close>
  is marked and was never returned. Likewise a pattern that does not compile
  (\<open>re.error\<close>) is passed over and the call goes on.
\<close>

lemma raising_call_keeps_marks:
  "read_relevant_sticky_notes overflow_lib (\<lambda>s. Inr context_bar) overflow_store tracker_init ''s''
     = (mark_shown tracker_init ''s'' ''a'', Inl OverflowError)"
  by (simp add: read_relevant_sticky_notes_def overflow_store_def overflow_lib_def
      compile_regex_def example_lib_def example_collect tracker_defs)

lemma compile_regex_error:
  "re_compile L p = Inl ReError \<Longrightarrow> compile_regex L p = Inl ValueError"
  "re_compile L p = Inl e \<Longrightarrow> e \<noteq> ReError \<Longrightarrow> compile_regex L p = Inl e"
  by (simp_all add: compile_regex_def)

text \<open>
  C1, amended: for stores whose note ids are pairwise distinct and for calls that return
  a result. A call that returns gives the payloads of the notes that are eligible (id not
  yet shown in the session, pattern compiles and yields at least one snippet on the
  context loaded for this call), in store order. A note delivered by a call is marked
  shown, and in every later call of the session that returns, whatever context is loaded
  then, it is not eligible and so is left out. A note that was not shown and whose
  pattern yields no snippet is not marked shown by the call.
\<close>

theorem read_relevant_once_per_session:
  assumes ids1: "distinct (map note_id ns1)" and ids2: "distinct (map note_id ns2)"
    and load1: "load1 sid = Inr c1" and load2: "load2 sid = Inr c2"
    and call1: "read_relevant_sticky_notes L load1 ns1 tr0 sid = (tr1, Inr r1)"
    and later: "shown_of tr1 sid \<subseteq> shown_of tr sid"
    and call2: "read_relevant_sticky_notes L load2 ns2 tr sid = (tr2, Inr r2)"
  shows "r1 = map (payload_of L c1) (filter (eligible L c1 tr0 sid) ns1)
       \<and> r2 = map (payload_of L c2) (filter (eligible L c2 tr sid) ns2)
       \<and> (\<forall>n\<in>set ns1. eligible L c1 tr0 sid n
             \<longrightarrow> has_shown tr1 sid (note_id n) \<and> \<not> eligible L c2 tr sid n)
       \<and> (\<forall>n\<in>set ns1. \<not> has_shown tr0 sid (note_id n) \<and> \<not> fires L c1 n
             \<longrightarrow> \<not> has_shown tr1 sid (note_id n))"
proof -
  from notes_loop_distinct[OF ids1 read_relevant_loop[OF load1 call1]]
  have r1: "r1 = map (payload_of L c1) (filter (eligible L c1 tr0 sid) ns1)"
    and h1: "\<And>s x. has_shown tr1 s x
        = (has_shown tr0 s x \<or> (s = sid \<and> x \<in> note_id ` set (filter (eligible L c1 tr0 sid) ns1)))"
    by simp_all
  from notes_loop_distinct[OF ids2 read_relevant_loop[OF load2 call2]]
  have r2: "r2 = map (payload_of L c2) (filter (eligible L c2 tr sid) ns2)" by simp
  have a: "\<forall>n\<in>set ns1. eligible L c1 tr0 sid n
             \<longrightarrow> has_shown tr1 sid (note_id n) \<and> \<not> eligible L c2 tr sid n"
  proof (intro ballI impI)
    fix n assume n: "n \<in> set ns1" and e: "eligible L c1 tr0 sid n"
    then have s1: "has_shown tr1 sid (note_id n)" by (auto simp: h1)
    with later have "has_shown tr sid (note_id n)" by (auto simp: has_shown_def)
    with s1 show "has_shown tr1 sid (note_id n) \<and> \<not> eligible L c2 tr sid n"
      by (simp add: eligible_def)
  qed
  have b: "\<forall>n\<in>set ns1. \<not> has_shown tr0 sid (note_id n) \<and> \<not> fires L c1 n
             \<longrightarrow> \<not> has_shown tr1 sid (note_id n)"
  proof (intro ballI impI)
    fix n assume n: "n \<in> set ns1" and z: "\<not> has_shown tr0 sid (note_id n) \<and> \<not> fires L c1 n"
    show "\<not> has_shown tr1 sid (note_id n)"
    proof
      assume "has_shown tr1 sid (note_id n)"
      with z obtain m where m: "m \<in> set ns1" "eligible L c1 tr0 sid m" "note_id m = note_id n"
        by (auto simp: h1)
      from ids1 n m(1) m(3) have "m = n" by (auto simp: distinct_map inj_on_def)
      with m(2) z show False by (simp add: eligible_def)
    qed
  qed
  from r1 r2 a b show ?thesis by blast
qed

lemma example_first_result:
  "snd example_first_call
     = Inr [JObj [(''message'', JStr ''remember''), (''trigger_snippets'', JList [JStr ''bar''])]]"
  by (simp add: example_first_call_def example_store_def read_relevant_sticky_notes_def
      example_compile example_collect tracker_defs)

lemma example_second_result:
  "snd example_second_call
     = Inr [JObj [(''message'', JStr ''remember''),
                  (''trigger_snippets'', JList [JStr ''foo bar''])]]"
  by (simp add: example_second_call_def example_first_call_def example_store_def
      read_relevant_sticky_notes_def example_compile example_collect tracker_defs)

theorem read_relevant_once_per_session_witness:
  "snd example_first_call
     = Inr (map (payload_of example_lib context_bar)
              (filter (eligible example_lib context_bar tracker_init ''s'') example_store))
   \<and> snd example_second_call
     = Inr (map (payload_of example_lib context_foo)
              (filter (eligible example_lib context_foo (fst example_first_call) ''s'')
                 example_store))
   \<and> has_shown (fst example_first_call) ''s'' ''a''
   \<and> \<not> eligible example_lib context_foo (fst example_first_call) ''s'' (example_note ''a'' ''bar'')
   \<and> \<not> has_shown (fst example_first_call) ''s'' ''b''"
proof -
  have ids: "distinct (map note_id example_store)" by (simp add: example_store_def)
  have load1: "(\<lambda>s. Inr context_bar) ''s'' = (Inr context_bar :: error + SessionContext)" by simp
  have load2: "(\<lambda>s. Inr context_foo) ''s'' = (Inr context_foo :: error + SessionContext)" by simp
  have call1: "read_relevant_sticky_notes example_lib (\<lambda>s. Inr context_bar) example_store
                 tracker_init ''s''
               = (fst example_first_call,
                  Inr [JObj [(''message'', JStr ''remember''),
                             (''trigger_snippets'', JList [JStr ''bar''])]])"
    using example_first_result by (simp add: example_first_call_def prod_eq_iff)
  have later: "shown_of (fst example_first_call) ''s'' \<subseteq> shown_of (fst example_first_call) ''s''"
    by simp
  have call2: "read_relevant_sticky_notes example_lib (\<lambda>s. Inr context_foo) example_store
                 (fst example_first_call) ''s''
               = (fst example_second_call,
                  Inr [JObj [(''message'', JStr ''remember''),
                             (''trigger_snippets'', JList [JStr ''foo bar''])]])"
    using example_second_result by (simp add: example_second_call_def prod_eq_iff)
  have a: "example_note ''a'' ''bar'' \<in> set example_store"
    and b: "example_note ''b'' ''foo'' \<in> set example_store"
    by (simp_all add: example_store_def)
  have ea: "eligible example_lib context_bar tracker_init ''s'' (example_note ''a'' ''bar'')"
    by (simp add: eligible_def example_fires tracker_defs)
  have nb: "\<not> has_shown tracker_init ''s'' (note_id (example_note ''b'' ''foo''))
            \<and> \<not> fires example_lib context_bar (example_note ''b'' ''foo'')"
    by (simp add: example_fires tracker_defs)
  from read_relevant_once_per_session [OF ids ids load1 load2 call1 later call2]
  show ?thesis
    using a b ea nb example_first_result example_second_result by auto
qed

lemma bind_Inr_iff: "bind m f = Inr y \<longleftrightarrow> (\<exists>x. m = Inr x \<and> f x = Inr y)"
  by (cases m) (simp_all add: bind_def)

lemma bind_Inr [simp]: "bind (Inr x) f = f x"
  by (simp add: bind_def)

lemma bind_Inl [simp]: "bind (Inl e) f = Inl e"
  by (simp add: bind_def)

lemma to_dict_shape:
  assumes "to_dict L n = Inr d"
  obtains iso where "dt_to_iso L (created_at n) = Inr iso"
    and "d = JObj ([(''id'', JStr (note_id n)), (''message'', JStr (message n)),
                   (''context_regex'', JStr (context_regex n)), (''created_at'', JStr iso)]
                  @ (case creator n of
                       Some c \<Rightarrow> (if c \<noteq> [] then [(''creator'', JStr c)] else [])
                     | None \<Rightarrow> [])
                  @ (case trigger_snippets n of
                       Some xs \<Rightarrow>
                         (if xs \<noteq> [] then [(''trigger_snippets'', JList (map JStr xs))] else [])
                     | None \<Rightarrow> []))"
  using assms unfolding to_dict_def bind_Inr_iff by auto

lemma from_dict_fields:
  assumes "from_dict L d = Inr n'"
  shows "\<exists>raw. get d ''trigger_snippets'' = Inr raw
           \<and> trigger_snippets n' = (case raw of JList items \<Rightarrow> Some (map (py_str L) items) | _ \<Rightarrow> None)"
    and "\<exists>cv. get d ''creator'' = Inr cv \<and> (\<not> truthy cv \<longrightarrow> creator n' = None)"
  using assms unfolding from_dict_def bind_Inr_iff by (auto split: if_splits)

text \<open>
  C9. \<open>to_dict\<close> writes the key \<open>creator\<close> only for a non-empty creator and the key
  \<open>trigger_snippets\<close> only for a non-empty list, so an empty string and an empty list are
  left out like \<open>None\<close>. Reading the object back gives \<open>None\<close> for a trigger-snippet list
  that was empty and \<open>None\<close> for a creator that was the empty string: on such a note
  serializing and deserializing does not give the note back.
\<close>

theorem to_dict_omits_falsy:
  assumes "to_dict L n = Inr d"
  shows "(has_key d ''creator'' \<longleftrightarrow> (\<exists>c. creator n = Some c \<and> c \<noteq> []))
       \<and> (has_key d ''trigger_snippets'' \<longleftrightarrow> (\<exists>xs. trigger_snippets n = Some xs \<and> xs \<noteq> []))
       \<and> (\<forall>n'. from_dict L d = Inr n' \<longrightarrow>
             (trigger_snippets n = Some [] \<longrightarrow> trigger_snippets n' = None)
             \<and> (creator n = Some [] \<longrightarrow> creator n' = None))
       \<and> (trigger_snippets n = Some [] \<or> creator n = Some [] \<longrightarrow> from_dict L d \<noteq> Inr n)"
proof -
  from assms obtain iso where d: "d = JObj ([(''id'', JStr (note_id n)), (''message'', JStr (message n)),
                   (''context_regex'', JStr (context_regex n)), (''created_at'', JStr iso)]
                  @ (case creator n of
                       Some c \<Rightarrow> (if c \<noteq> [] then [(''creator'', JStr c)] else [])
                     | None \<Rightarrow> [])
                  @ (case trigger_snippets n of
                       Some xs \<Rightarrow>
                         (if xs \<noteq> [] then [(''trigger_snippets'', JList (map JStr xs))] else [])
                     | None \<Rightarrow> []))"
    by (rule to_dict_shape)
  have k1: "has_key d ''creator'' \<longleftrightarrow> (\<exists>c. creator n = Some c \<and> c \<noteq> [])"
    unfolding d by (cases "creator n"; cases "trigger_snippets n") auto
  have k2: "has_key d ''trigger_snippets'' \<longleftrightarrow> (\<exists>xs. trigger_snippets n = Some xs \<and> xs \<noteq> [])"
    unfolding d by (cases "creator n"; cases "trigger_snippets n") auto
  have g1: "trigger_snippets n = Some [] \<Longrightarrow> get d ''trigger_snippets'' = Inr JNull"
    unfolding d by (cases "creator n") (auto simp: get_def)
  have g2: "creator n = Some [] \<Longrightarrow> get d ''creator'' = Inr JNull"
    unfolding d by (cases "trigger_snippets n") (auto simp: get_def)
  have r: "\<forall>n'. from_dict L d = Inr n' \<longrightarrow>
             (trigger_snippets n = Some [] \<longrightarrow> trigger_snippets n' = None)
             \<and> (creator n = Some [] \<longrightarrow> creator n' = None)"
  proof (intro allI impI conjI)
    fix n' assume f: "from_dict L d = Inr n'" and "trigger_snippets n = Some []"
    with g1 from_dict_fields(1)[OF f] show "trigger_snippets n' = None" by auto
  next
    fix n' assume f: "from_dict L d = Inr n'" and "creator n = Some []"
    with g2 from_dict_fields(2)[OF f] show "creator n' = None" by auto
  qed
  have ne: "trigger_snippets n = Some [] \<or> creator n = Some [] \<longrightarrow> from_dict L d \<noteq> Inr n"
    using r by auto
  from k1 k2 r ne show ?thesis by blast
qed

lemma example_time_iso: "isoformat example_time = ''2025-01-01T00:00:00+00:00''"
  by (simp add: isoformat_def example_time_def format_offset_def utc_def zero_pad_def
      str_nat.simps digit_char_def)

lemma example_time_dt_to_iso: "dt_to_iso example_lib example_time = Inr ''2025-01-01T00:00:00Z''"
  by (simp add: dt_to_iso_def astimezone_utc_def example_time_iso) (simp add: example_time_def utc_def)

lemma example_iso_to_dt: "iso_to_dt example_lib ''2025-01-01T00:00:00Z'' = Inr example_time"
  by (simp add: iso_to_dt_def example_lib_def astimezone_utc_def) (simp add: example_time_def utc_def)

lemma empty_fields_to_dict:
  "to_dict example_lib empty_fields_note
     = Inr (JObj [(''id'', JStr ''note-1''), (''message'', JStr ''Remember''),
                  (''context_regex'', JStr ''docs''), (''created_at'', JStr ''2025-01-01T00:00:00Z'')])"
  by (simp add: to_dict_def empty_fields_note_def example_time_dt_to_iso)

theorem to_dict_omits_falsy_witness:
  "to_dict example_lib empty_fields_note
     = Inr (JObj [(''id'', JStr ''note-1''), (''message'', JStr ''Remember''),
                  (''context_regex'', JStr ''docs''), (''created_at'', JStr ''2025-01-01T00:00:00Z'')])
   \<and> from_dict example_lib
        (JObj [(''id'', JStr ''note-1''), (''message'', JStr ''Remember''),
               (''context_regex'', JStr ''docs''), (''created_at'', JStr ''2025-01-01T00:00:00Z'')])
     = Inr (empty_fields_note\<lparr>creator := None, trigger_snippets := None\<rparr>)
   \<and> from_dict example_lib
        (JObj [(''id'', JStr ''note-1''), (''message'', JStr ''Remember''),
               (''context_regex'', JStr ''docs''), (''created_at'', JStr ''2025-01-01T00:00:00Z'')])
     \<noteq> Inr empty_fields_note"
proof -
  have f: "from_dict example_lib
        (JObj [(''id'', JStr ''note-1''), (''message'', JStr ''Remember''),
               (''context_regex'', JStr ''docs''), (''created_at'', JStr ''2025-01-01T00:00:00Z'')])
     = Inr (empty_fields_note\<lparr>creator := None, trigger_snippets := None\<rparr>)"
    by (simp add: from_dict_def get_def example_iso_to_dt empty_fields_note_def)
  have e: "trigger_snippets empty_fields_note = Some [] \<or> creator empty_fields_note = Some []"
    by (simp add: empty_fields_note_def)
  from to_dict_omits_falsy [OF empty_fields_to_dict] e f empty_fields_to_dict
  show ?thesis by simp
qed

lemma str_nat_digits: "set (str_nat n) \<subseteq> set ''0123456789''"
proof (induction n rule: str_nat.induct)
  case (1 n)
  show ?case
  proof (cases "n < 10")
    case True
    then have "n \<in> {0,1,2,3,4,5,6,7,8,9}" by auto
    then show ?thesis by (subst str_nat.simps) (auto simp: digit_char_def)
  next
    case False
    have "n mod 10 \<in> {0,1,2,3,4,5,6,7,8,9}" by (simp; presburger)
    then have "digit_char (n mod 10) \<in> set ''0123456789''" by (auto simp: digit_char_def)
    with False 1 show ?thesis by (subst str_nat.simps) auto
  qed
qed

lemma zero_pad_digits: "set (zero_pad w n) \<subseteq> set ''0123456789''"
  using str_nat_digits[of n] by (auto simp: zero_pad_def)

lemma replace_skip:
  "c \<notin> set s \<Longrightarrow> replace (c # old) new (s @ t) = s @ replace (c # old) new t"
proof (induction s)
  case Nil
  show ?case by simp
next
  case (Cons x xs)
  then have "x \<noteq> c" by auto
  with Cons show ?case by simp
qed

lemma isoformat_utc_shape:
  assumes "tzinfo d = utc"
  obtains body where "isoformat d = body @ ''+00:00''" and "CHR ''+'' \<notin> set body" and "CHR ''Z'' \<notin> set body"
proof -
  let ?c = "wall d"
  let ?body = "zero_pad 4 (year ?c) @ ''-'' @ zero_pad 2 (month ?c) @ ''-'' @ zero_pad 2 (day ?c)
         @ ''T'' @ zero_pad 2 (hour ?c) @ '':'' @ zero_pad 2 (minute ?c) @ '':''
         @ zero_pad 2 (second ?c)
         @ (if microsecond ?c \<noteq> 0 then ''.'' @ zero_pad 6 (microsecond ?c) else [])"
  have off: "format_offset (Some 0) = ''+00:00''"
    by (simp add: format_offset_def zero_pad_def str_nat.simps digit_char_def)
  have iso: "isoformat d = ?body @ ''+00:00''"
    using assms off by (simp add: isoformat_def utc_def Let_def)
  have p: "\<And>w n. CHR ''+'' \<notin> set (zero_pad w n)"
  proof -
    fix w n show "CHR ''+'' \<notin> set (zero_pad w n)" using zero_pad_digits[of w n] by auto
  qed
  have z: "\<And>w n. CHR ''Z'' \<notin> set (zero_pad w n)"
  proof -
    fix w n show "CHR ''Z'' \<notin> set (zero_pad w n)" using zero_pad_digits[of w n] by auto
  qed
  have "CHR ''+'' \<notin> set ?body" by (simp add: p)
  moreover have "CHR ''Z'' \<notin> set ?body" by (simp add: z)
  ultimately have "CHR ''+'' \<notin> set ?body" and "CHR ''Z'' \<notin> set ?body" by blast+
  with iso show ?thesis by (rule that)
qed

lemma iso_z_roundtrip:
  assumes "tzinfo d = utc"
  shows "replace ''Z'' ''+00:00'' (replace ''+00:00'' ''Z'' (isoformat d)) = isoformat d"
proof -
  from assms obtain body where b: "isoformat d = body @ ''+00:00''"
    and p: "CHR ''+'' \<notin> set body" and z: "CHR ''Z'' \<notin> set body"
    by (rule isoformat_utc_shape)
  have "replace ''+00:00'' ''Z'' (body @ ''+00:00'') = body @ ''Z''"
    using replace_skip[OF p, of "''00:00''" "''Z''" "''+00:00''"] by simp
  moreover have "replace ''Z'' ''+00:00'' (body @ ''Z'') = body @ ''+00:00''"
    using replace_skip[OF z, of "[]" "''+00:00''" "''Z''"] by simp
  ultimately show ?thesis by (simp add: b)
qed

lemma utc_dt_to_iso:
  assumes "tzinfo d = utc"
  shows "dt_to_iso L d = Inr (replace ''+00:00'' ''Z'' (isoformat d))"
  using assms by (simp add: dt_to_iso_def astimezone_utc_def utc_def)

lemma astimezone_utc_tzinfo: "astimezone_utc L d = Inr d' \<Longrightarrow> tzinfo d' = utc"
  by (auto simp: astimezone_utc_def bind_Inr_iff split: if_splits)

lemma from_dict_created_at_utc:
  assumes "from_dict L p = Inr n'"
  shows "tzinfo (created_at n') = utc"
proof -
  from assms obtain v where "iso_to_dt L v = Inr (created_at n')"
    unfolding from_dict_def bind_Inr_iff by auto
  then obtain d where "astimezone_utc L d = Inr (created_at n')"
    by (auto simp: iso_to_dt_def split: option.splits)
  then show ?thesis by (rule astimezone_utc_tzinfo)
qed

lemma create_sticky_note_fields:
  assumes c: "create_sticky_note L load_context fresh clock msg regex sid nid = Inr (n, answer)"
  shows "created_at n = timestamp_now clock \<and> creator n = None
         \<and> trigger_snippets n \<noteq> Some []"
proof (cases "compile_regex L regex")
  case (Inl e)
  with c show ?thesis by (simp add: create_sticky_note_def split: if_splits)
next
  case pat: (Inr pat)
  show ?thesis
  proof (cases "load_context sid")
    case (Inl e)
    with c pat show ?thesis by (simp add: create_sticky_note_def split: if_splits)
  next
    case ctx: (Inr ctx)
    show ?thesis
    proof (cases "collect_snippets pat ctx")
      case (Inl e)
      with c pat ctx show ?thesis by (simp add: create_sticky_note_def split: if_splits)
    next
      case (Inr snippets)
      with c pat ctx show ?thesis
        by (auto simp: create_sticky_note_def Let_def split: if_splits)
    qed
  qed
qed

lemma map_py_str_JStr: "map (py_str L \<circ> JStr) xs = xs"
  by (induction xs) auto

lemma from_dict_object:
  assumes "iso_to_dt L stamp = Inr dt"
  shows "from_dict L (JObj ([(''id'', JStr i), (''message'', JStr m),
                            (''context_regex'', JStr r), (''created_at'', JStr stamp)]
                           @ (case c of Some x \<Rightarrow> [(''creator'', JStr x)] | None \<Rightarrow> [])
                           @ (case t of Some xs \<Rightarrow> [(''trigger_snippets'', JList (map JStr xs))]
                              | None \<Rightarrow> [])))
         = Inr \<lparr>note_id = i, message = m, context_regex = r, created_at = dt,
                creator = (if c = Some [] then None else c), trigger_snippets = t\<rparr>"
proof (cases c)
  case None
  show ?thesis
  proof (cases t)
    case tn: None
    show ?thesis by (simp add: None tn from_dict_def get_def assms)
  next
    case (Some xs)
    show ?thesis by (simp add: None Some from_dict_def get_def assms map_py_str_JStr)
  qed
next
  case cs: (Some x)
  show ?thesis
  proof (cases t)
    case None
    show ?thesis by (simp add: None cs from_dict_def get_def assms)
  next
    case (Some xs)
    show ?thesis by (simp add: cs Some from_dict_def get_def assms map_py_str_JStr)
  qed
qed

text \<open>
  Writing a note and reading it back returns a note whenever the library reads the
  written timestamp: the note read has the timestamp the library gives, an empty creator
  and an empty snippet list have become \<open>None\<close>, and every other field is the same.
\<close>

lemma to_dict_from_dict:
  assumes i: "dt_to_iso L (created_at n) = Inr stamp" and b: "iso_to_dt L stamp = Inr dt"
  shows "bind (to_dict L n) (from_dict L)
         = Inr (n\<lparr>created_at := dt,
                  creator := (if creator n = Some [] then None else creator n),
                  trigger_snippets :=
                    (if trigger_snippets n = Some [] then None else trigger_snippets n)\<rparr>)"
proof -
  let ?c = "if creator n = Some [] then None else creator n"
  let ?t = "if trigger_snippets n = Some [] then None else trigger_snippets n"
  have c: "(case creator n of Some c \<Rightarrow> (if c \<noteq> [] then [(''creator'', JStr c)] else [])
            | None \<Rightarrow> [])
           = (case ?c of Some x \<Rightarrow> [(''creator'', JStr x)] | None \<Rightarrow> [])"
    by (cases "creator n") simp_all
  have t: "(case trigger_snippets n of
              Some xs \<Rightarrow> (if xs \<noteq> [] then [(''trigger_snippets'', JList (map JStr xs))] else [])
            | None \<Rightarrow> [])
           = (case ?t of Some xs \<Rightarrow> [(''trigger_snippets'', JList (map JStr xs))] | None \<Rightarrow> [])"
    by (cases "trigger_snippets n") simp_all
  have td: "to_dict L n
            = Inr (JObj ([(''id'', JStr (note_id n)), (''message'', JStr (message n)),
                          (''context_regex'', JStr (context_regex n)), (''created_at'', JStr stamp)]
                         @ (case ?c of Some x \<Rightarrow> [(''creator'', JStr x)] | None \<Rightarrow> [])
                         @ (case ?t of Some xs \<Rightarrow> [(''trigger_snippets'', JList (map JStr xs))]
                            | None \<Rightarrow> [])))"
    unfolding to_dict_def i c t by simp
  have cc: "(if ?c = Some [] then None else ?c) = ?c" by simp
  have r: "\<lparr>note_id = note_id n, message = message n, context_regex = context_regex n,
            created_at = dt, creator = ?c, trigger_snippets = ?t\<rparr>
           = n\<lparr>created_at := dt, creator := ?c, trigger_snippets := ?t\<rparr>"
    by (cases n) simp
  show ?thesis
    unfolding td bind_Inr from_dict_object[OF b] cc r ..
qed

text \<open>
  C8. A note built by \<open>create_sticky_note\<close> and written with \<open>to_dict\<close> is read back by
  \<open>from_dict\<close> with the same id, message, pattern, creator and snippet list: the note
  read is the note written with the timestamp the library gives for the written text,
  and that timestamp carries the zone UTC. The written timestamp is the \<open>isoformat\<close> of
  the creation time with \<open>+00:00\<close> replaced by \<open>Z\<close>, and reading puts \<open>+00:00\<close> back, so
  the library's \<open>fromisoformat\<close> is given the text \<open>isoformat\<close> printed; when it reads
  that as the creation time, the note read is the note written. Whatever object
  \<open>from_dict\<close> accepts, the timestamp of the note it returns carries the zone UTC.
\<close>

theorem created_note_roundtrip:
  assumes created:
      "create_sticky_note L load_context fresh clock msg regex sid nid = Inr (n, answer)"
    and parse: "fromisoformat L (isoformat (created_at n)) = Some d"
    and conv: "astimezone_utc L d = Inr d'"
  shows "bind (to_dict L n) (from_dict L) = Inr (n\<lparr>created_at := d'\<rparr>)
       \<and> tzinfo d' = utc
       \<and> (d = created_at n \<longrightarrow> bind (to_dict L n) (from_dict L) = Inr n)
       \<and> (\<forall>p n'. from_dict L p = Inr n' \<longrightarrow> tzinfo (created_at n') = utc)"
proof -
  from create_sticky_note_fields[OF created]
  have u: "tzinfo (created_at n) = utc" and c: "creator n = None"
    and t: "trigger_snippets n \<noteq> Some []"
    by (simp_all add: timestamp_now_def)
  have rd: "iso_to_dt L (replace ''+00:00'' ''Z'' (isoformat (created_at n))) = Inr d'"
    using parse conv by (simp add: iso_to_dt_def iso_z_roundtrip[OF u])
  have "bind (to_dict L n) (from_dict L)
          = Inr (n\<lparr>created_at := d',
                   creator := (if creator n = Some [] then None else creator n),
                   trigger_snippets :=
                     (if trigger_snippets n = Some [] then None else trigger_snippets n)\<rparr>)"
    by (rule to_dict_from_dict[OF utc_dt_to_iso[OF u] rd])
  also have "n\<lparr>created_at := d',
                   creator := (if creator n = Some [] then None else creator n),
                   trigger_snippets :=
                     (if trigger_snippets n = Some [] then None else trigger_snippets n)\<rparr>
             = n\<lparr>created_at := d'\<rparr>"
    using c t by (cases n) simp
  finally have r: "bind (to_dict L n) (from_dict L) = Inr (n\<lparr>created_at := d'\<rparr>)" .
  have z: "tzinfo d' = utc" using conv by (rule astimezone_utc_tzinfo)
  have s: "d = created_at n \<longrightarrow> bind (to_dict L n) (from_dict L) = Inr n"
  proof
    assume e: "d = created_at n"
    with u conv have "d' = created_at n" by (simp add: astimezone_utc_def)
    with r show "bind (to_dict L n) (from_dict L) = Inr n" by simp
  qed
  have a: "\<forall>p n'. from_dict L p = Inr n' \<longrightarrow> tzinfo (created_at n') = utc"
    by (intro allI impI) (rule from_dict_created_at_utc)
  from r z s a show ?thesis by (intro conjI)
qed

lemma created_note_example:
  "create_sticky_note example_lib (\<lambda>s. Inr context_docs) ''0f'' (wall example_time)
     ''Remember to update docs'' ''docs'' ''s'' (Some ''note-1'')
   = Inr (created_note, JObj [(''id'', JStr ''note-1''),
                             (''trigger_snippets'', JList [JStr ''see docs''])])"
  by (simp add: create_sticky_note_def example_compile collect_snippets_def context_docs_def
      text_entry_def entry_snippets_def extract_window_def py_slice_def created_note_def
      timestamp_now_def example_time_def Let_def)

theorem created_note_roundtrip_witness:
  "to_dict example_lib created_note
     = Inr (JObj [(''id'', JStr ''note-1''), (''message'', JStr ''Remember to update docs''),
                  (''context_regex'', JStr ''docs''),
                  (''created_at'', JStr ''2025-01-01T00:00:00Z''),
                  (''trigger_snippets'', JList [JStr ''see docs''])])
   \<and> from_dict example_lib
        (JObj [(''id'', JStr ''note-1''), (''message'', JStr ''Remember to update docs''),
               (''context_regex'', JStr ''docs''),
               (''created_at'', JStr ''2025-01-01T00:00:00Z''),
               (''trigger_snippets'', JList [JStr ''see docs''])])
     = Inr created_note
   \<and> tzinfo (created_at created_note) = utc"
proof -
  have parse: "fromisoformat example_lib (isoformat (created_at created_note))
                 = Some (created_at created_note)"
    by (simp add: created_note_def example_time_iso example_lib_def)
  have u: "tzinfo (created_at created_note) = utc"
    by (simp add: created_note_def example_time_def)
  have conv: "astimezone_utc example_lib (created_at created_note)
                = Inr (created_at created_note)"
    using u by (simp add: astimezone_utc_def)
  have d: "to_dict example_lib created_note
     = Inr (JObj [(''id'', JStr ''note-1''), (''message'', JStr ''Remember to update docs''),
                  (''context_regex'', JStr ''docs''),
                  (''created_at'', JStr ''2025-01-01T00:00:00Z''),
                  (''trigger_snippets'', JList [JStr ''see docs''])])"
    by (simp add: to_dict_def created_note_def example_time_dt_to_iso)
  from created_note_roundtrip [OF created_note_example parse conv] d u
  show ?thesis by simp
qed

lemma in_str_set_True: "in_str_set v S = Inr True \<Longrightarrow> \<exists>s. v = JStr s \<and> s \<in> set S"
  by (cases v) auto

lemma str_nat_no: "c \<notin> set ''0123456789'' \<Longrightarrow> c \<notin> set (str_nat n)"
  using str_nat_digits[of n] by blast

lemma str_int_no:
  assumes "c \<notin> set ''0123456789''" and "c \<noteq> CHR ''-''"
  shows "c \<notin> set (str_int i)"
  using str_nat_no[OF assms(1)] assms(2) by (simp add: str_int_def)

lemma str_int_not_noise:
  "str_int i \<noteq> ''token_count''" "str_int i \<noteq> ''agent_message''" "str_int i \<noteq> ''user_message''"
proof -
  have t: "CHR ''t'' \<notin> set (str_int i)" by (rule str_int_no) simp_all
  have a: "CHR ''a'' \<notin> set (str_int i)" by (rule str_int_no) simp_all
  have u: "CHR ''u'' \<notin> set (str_int i)" by (rule str_int_no) simp_all
  show "str_int i \<noteq> ''token_count''"
  proof
    assume "str_int i = ''token_count''"
    then have "CHR ''t'' \<in> set (str_int i)" by simp
    with t show False ..
  qed
  show "str_int i \<noteq> ''agent_message''"
  proof
    assume "str_int i = ''agent_message''"
    then have "CHR ''a'' \<in> set (str_int i)" by simp
    with a show False ..
  qed
  show "str_int i \<noteq> ''user_message''"
  proof
    assume "str_int i = ''user_message''"
    then have "CHR ''u'' \<in> set (str_int i)" by simp
    with u show False ..
  qed
qed

lemma not_noise_str:
  assumes "in_str_set variant [''token_count'', ''agent_message'', ''user_message''] = Inr False"
  shows "py_str L variant \<notin> {''token_count'', ''agent_message'', ''user_message''}"
  using assms by (cases variant) (auto simp: str_int_not_noise)

lemma session_meta_kind:
  "entry_from_session_meta L item = Inr (Some e) \<Longrightarrow> kind e = ''session_meta''"
  by (auto simp: entry_from_session_meta_def bind_Inr_iff split: if_splits)

lemma compacted_kind:
  "entry_from_compacted L item = Inr (Some e) \<Longrightarrow> kind e = ''compacted''"
  by (auto simp: entry_from_compacted_def bind_Inr_iff split: if_splits)

lemma event_msg_kind:
  "entry_from_event_msg L item = Inr (Some e) \<Longrightarrow>
   \<exists>payload variant. item_payload item = Inr payload \<and> get payload ''type'' = Inr variant
      \<and> kind e = ''event:'' @ py_str L variant"
  by (auto simp: entry_from_event_msg_def bind_Inr_iff Let_def split: if_splits)

lemma response_item_kind:
  "entry_from_response_item L item = Inr (Some e) \<Longrightarrow>
   kind e \<in> {''message'', ''reasoning'', ''function_call'', ''custom_tool_call'', ''local_shell_call''}"
  by (auto simp: entry_from_response_item_def bind_Inr_iff Let_def split: if_splits
      dest!: in_str_set_True)

lemma process_item_cases:
  assumes "process_item L item d = Inr (Some e, d')"
  shows "entry_from_session_meta L item = Inr (Some e)
       \<or> entry_from_response_item L item = Inr (Some e)
       \<or> entry_from_compacted L item = Inr (Some e)
       \<or> (\<exists>payload variant. item_payload item = Inr payload \<and> get payload ''type'' = Inr variant
             \<and> in_str_set variant [''token_count'', ''agent_message'', ''user_message''] = Inr False
             \<and> entry_from_event_msg L item = Inr (Some e))"
  using assms by (auto simp: process_item_def bind_Inr_iff split: if_splits)

lemma process_item_kind:
  assumes "process_item L item d = Inr (Some e, d')"
  shows "kind e \<notin> set excluded_kinds"
proof -
  from process_item_cases[OF assms]
  consider (meta) "entry_from_session_meta L item = Inr (Some e)"
    | (resp) "entry_from_response_item L item = Inr (Some e)"
    | (comp) "entry_from_compacted L item = Inr (Some e)"
    | (event) payload variant where "item_payload item = Inr payload"
        "get payload ''type'' = Inr variant"
        "in_str_set variant [''token_count'', ''agent_message'', ''user_message''] = Inr False"
        "entry_from_event_msg L item = Inr (Some e)"
    by blast
  then show ?thesis
  proof cases
    case meta
    from session_meta_kind[OF this] show ?thesis by (simp add: excluded_kinds_def)
  next
    case resp
    from response_item_kind[OF this] show ?thesis by (auto simp: excluded_kinds_def)
  next
    case comp
    from compacted_kind[OF this] show ?thesis by (simp add: excluded_kinds_def)
  next
    case event
    from event_msg_kind[OF event(4)] event(1,2)
    have k: "kind e = ''event:'' @ py_str L variant" by auto
    from not_noise_str[OF event(3), of L] k show ?thesis by (simp add: excluded_kinds_def)
  qed
qed

lemma file_loop_invariant:
  assumes "file_loop L ls acc d = Inr (es, d')" and "\<forall>e\<in>set acc. P e"
    and step: "\<And>item d0 e d1. process_item L item d0 = Inr (Some e, d1) \<Longrightarrow> P e"
  shows "\<forall>e\<in>set es. P e"
  using assms(1,2)
proof (induction ls arbitrary: acc d)
  case Nil
  then show ?case by simp
next
  case (Cons line rest)
  show ?case
  proof (cases line)
    case (Inl e)
    with Cons.prems(1) show ?thesis by simp
  next
    case (Inr item)
    with Cons.prems(1) obtain r where r: "process_item L item d = Inr r"
      and l: "file_loop L rest (case fst r of Some entry \<Rightarrow> acc @ [entry] | None \<Rightarrow> acc) (snd r)
                = Inr (es, d')"
      by (auto simp: bind_Inr_iff)
    have "\<forall>e\<in>set (case fst r of Some entry \<Rightarrow> acc @ [entry] | None \<Rightarrow> acc). P e"
    proof (cases "fst r")
      case None
      with Cons.prems(2) show ?thesis by simp
    next
      case (Some entry)
      with r have "process_item L item d = Inr (Some entry, snd r)"
        by (simp add: prod_eq_iff)
      from step[OF this] Some Cons.prems(2) show ?thesis by simp
    qed
    from Cons.IH[OF l this] show ?thesis .
  qed
qed

lemma candidates_loop_source:
  "candidates_loop L sid cs fb = Inr (ctx, w) \<Longrightarrow>
   (\<exists>src. fb = Some (ctx, src))
   \<or> (\<exists>p\<in>set cs. \<exists>es d. file_loop L (lines p) [] JNull = Inr (es, d) \<and> es \<noteq> []
          \<and> ctx = \<lparr>session_id = sid, entries = es\<rparr>)"
proof (induction cs arbitrary: fb)
  case Nil
  then show ?case by (cases fb) (auto simp: prod_eq_iff)
next
  case (Cons p rest)
  from Cons.prems obtain r where r: "file_loop L (lines p) [] JNull = Inr r"
    and c: "(if fst r = [] then candidates_loop L sid rest fb
       else if snd r = JStr sid then Inr (\<lparr>session_id = sid, entries = fst r\<rparr>, [])
       else candidates_loop L sid rest
              (case fb of
                 None \<Rightarrow> Some (\<lparr>session_id = sid, entries = fst r\<rparr>, path p)
               | Some f \<Rightarrow> Some f)) = Inr (ctx, w)"
    by (auto simp: bind_Inr_iff)
  have rr: "file_loop L (lines p) [] JNull = Inr (fst r, snd r)" using r by simp
  show ?case
  proof (cases "fst r = []")
    case True
    with c have "candidates_loop L sid rest fb = Inr (ctx, w)" by simp
    from Cons.IH[OF this] show ?thesis by auto
  next
    case ne: False
    show ?thesis
    proof (cases "snd r = JStr sid")
      case True
      with ne c have ctx: "ctx = \<lparr>session_id = sid, entries = fst r\<rparr>" by simp
      from rr ne ctx show ?thesis
        by (intro disjI2 bexI[of _ p] exI[of _ "fst r"] exI[of _ "snd r"]) simp_all
    next
      case False
      with ne c have l: "candidates_loop L sid rest
              (case fb of
                 None \<Rightarrow> Some (\<lparr>session_id = sid, entries = fst r\<rparr>, path p)
               | Some f \<Rightarrow> Some f) = Inr (ctx, w)" by simp
      show ?thesis
      proof (cases fb)
        case None
        with l have "candidates_loop L sid rest (Some (\<lparr>session_id = sid, entries = fst r\<rparr>, path p))
                       = Inr (ctx, w)" by simp
        from Cons.IH[OF this] show ?thesis
        proof
          assume "\<exists>src. Some (\<lparr>session_id = sid, entries = fst r\<rparr>, path p) = Some (ctx, src)"
          then have ctx: "ctx = \<lparr>session_id = sid, entries = fst r\<rparr>" by simp
          from rr ne ctx show ?thesis
            by (intro disjI2 bexI[of _ p] exI[of _ "fst r"] exI[of _ "snd r"]) simp_all
        next
          assume "\<exists>p\<in>set rest. \<exists>es d. file_loop L (lines p) [] JNull = Inr (es, d) \<and> es \<noteq> []
                     \<and> ctx = \<lparr>session_id = sid, entries = es\<rparr>"
          then show ?thesis by auto
        qed
      next
        case (Some f)
        with l have "candidates_loop L sid rest fb = Inr (ctx, w)" by simp
        from Cons.IH[OF this] show ?thesis by auto
      qed
    qed
  qed
qed







lemma get_field: "get v k = Inr x \<Longrightarrow> x = field v k"
  by (cases v) (auto simp: get_def split: option.splits)










lemma codex_entries_source:
  assumes "codex_load_context L candidate_paths sid = Inr (ctx, w)"
  shows "\<exists>(p::rollout) es d. file_loop L (lines p) [] JNull = Inr (es, d) \<and> es \<noteq> []
           \<and> ctx = \<lparr>session_id = sid, entries = es\<rparr>"
proof -
  from assms obtain cs where "candidates_loop L sid cs None = Inr (ctx, w)"
    by (auto simp: codex_load_context_def bind_Inr_iff split: if_splits)
  from candidates_loop_source[OF this]
  have "\<exists>p\<in>set cs. \<exists>es d. file_loop L (lines p) [] JNull = Inr (es, d) \<and> es \<noteq> []
          \<and> ctx = \<lparr>session_id = sid, entries = es\<rparr>"
    by simp
  then show ?thesis by blast
qed

text \<open>
  C6. No entry of a context returned by the provider has the kind \<open>turn_context\<close>,
  \<open>event:user_message\<close>, \<open>event:agent_message\<close> or \<open>event:token_count\<close>. An \<open>event_msg\<close>
  record whose payload holds a discriminant \<open>v\<close> other than the three noise names and a
  text \<open>t\<close> adds one entry, with kind \<open>event:v\<close> and the text \<open>t\<close>; for the discriminant
  \<open>agent_reasoning\<close> and the text \<open>**Hidden thoughts**\<close> this is the entry
  \<open>hidden_thoughts_entry\<close>.
\<close>

theorem codex_excluded_kinds:
  "(\<forall>ctx w. codex_load_context L candidate_paths sid = Inr (ctx, w)
       \<longrightarrow> (\<forall>e\<in>set (entries ctx). kind e \<notin> set excluded_kinds))
   \<and> (\<forall>v t. v \<notin> {''token_count'', ''agent_message'', ''user_message''}
       \<longrightarrow> file_loop L [Inr (event_item v [(''text'', JStr t)])] found d
           = Inr (found @ [\<lparr>timestamp = None, kind = ''event:'' @ v, entry_text = JStr t,
                             role = JNull,
                             metadata = JObj [(''type'', JStr v), (''text'', JStr t)]\<rparr>], d))
   \<and> file_loop L [Inr hidden_thoughts_item] [] JNull = Inr ([hidden_thoughts_entry], JNull)"
proof (intro conjI allI impI)
  fix ctx w assume "codex_load_context L candidate_paths sid = Inr (ctx, w)"
  from codex_entries_source[OF this]
  obtain p :: rollout and es d' where l: "file_loop L (lines p) [] JNull = Inr (es, d')"
    and c: "ctx = \<lparr>session_id = sid, entries = es\<rparr>"
    by blast
  have "\<forall>e\<in>set es. kind e \<notin> set excluded_kinds"
    by (rule file_loop_invariant[OF l]) (simp, rule process_item_kind)
  with c show "\<forall>e\<in>set (entries ctx). kind e \<notin> set excluded_kinds" by simp
next
  fix v t assume "v \<notin> {''token_count'', ''agent_message'', ''user_message''}"
  then show "file_loop L [Inr (event_item v [(''text'', JStr t)])] found d
           = Inr (found @ [\<lparr>timestamp = None, kind = ''event:'' @ v, entry_text = JStr t,
                             role = JNull,
                             metadata = JObj [(''type'', JStr v), (''text'', JStr t)]\<rparr>], d)"
    by (simp add: event_item_def process_item_def get_def item_payload_def py_or_def
        entry_from_event_msg_def view_of_def parse_timestamp_def Let_def)
next
  show "file_loop L [Inr hidden_thoughts_item] [] JNull = Inr ([hidden_thoughts_entry], JNull)"
    by (simp add: hidden_thoughts_item_def hidden_thoughts_entry_def event_item_def
        process_item_def get_def item_payload_def py_or_def entry_from_event_msg_def view_of_def
        parse_timestamp_def Let_def)
qed

lemma rollout_events_parse:
  "parse_rollout L rollout_events = Inr ([meta_entry ''X'' ''be brief'', hidden_thoughts_entry], JStr ''X'')"
  by (simp add: parse_rollout_def rollout_events_def meta_item_def meta_entry_def
      hidden_thoughts_item_def hidden_thoughts_entry_def event_item_def process_item_def get_def
      item_payload_def py_or_def entry_from_session_meta_def entry_from_event_msg_def view_of_def
      parse_timestamp_def Let_def)

lemma rollout_events_load:
  "codex_load_context L (\<lambda>s. Inr [rollout_events]) ''X''
     = Inr (\<lparr>session_id = ''X'', entries = [meta_entry ''X'' ''be brief'', hidden_thoughts_entry]\<rparr>, [])"
  using rollout_events_parse[of L] by (simp add: codex_load_context_def parse_rollout_def)

theorem codex_excluded_kinds_witness:
  "codex_load_context example_lib (\<lambda>s. Inr [rollout_events]) ''X''
     = Inr (\<lparr>session_id = ''X'', entries = [meta_entry ''X'' ''be brief'', hidden_thoughts_entry]\<rparr>, [])
   \<and> kind (meta_entry ''X'' ''be brief'') \<notin> set excluded_kinds
   \<and> kind hidden_thoughts_entry \<notin> set excluded_kinds
   \<and> file_loop example_lib [Inr (event_item ''agent_reasoning'' [(''text'', JStr ''Visible reasoning'')])]
        [] JNull
     = Inr ([\<lparr>timestamp = None, kind = ''event:agent_reasoning'',
              entry_text = JStr ''Visible reasoning'', role = JNull,
              metadata = JObj [(''type'', JStr ''agent_reasoning''),
                               (''text'', JStr ''Visible reasoning'')]\<rparr>], JNull)"
  using codex_excluded_kinds[of example_lib "\<lambda>s. Inr [rollout_events]" "''X''" "[]" JNull]
    rollout_events_load[of example_lib]
  by simp

end
